theory Spec2Isabelle
  imports Complex_Main "HOL-Library.Word" "HOL-Library.Sublist"
begin

section \<open>JavaScript values used by the SDK\<close>

text \<open>
  A JavaScript \<open>number\<close>: a finite value, the two infinities, or \<open>NaN\<close>. The SDK only
  compares numbers with the constants 0.5, 2.0 and 0, so finite values are kept as reals
  (rounding to binary64 plays no part in a comparison). \<open>NaN\<close> is kept apart because
  every comparison with it is false.
\<close>

datatype number = Fin real | PosInfinity | NegInfinity | NaN

text \<open>The operator \<open>a < b\<close> on numbers; \<open>a > b\<close> is \<open>js_less b a\<close>.\<close>

fun js_less :: "number \<Rightarrow> number \<Rightarrow> bool" where
  "js_less (Fin a) (Fin b) = (a < b)"
| "js_less (Fin a) PosInfinity = True"
| "js_less NegInfinity (Fin b) = True"
| "js_less NegInfinity PosInfinity = True"
| "js_less _ _ = False"

definition isNaN :: "number \<Rightarrow> bool" where
  "isNaN n = (n = NaN)"

text \<open>
  \<open>x ?? d\<close> replaces only \<open>undefined\<close>; \<open>x || d\<close> replaces every falsy value: for a number
  \<open>undefined\<close>, 0 and \<open>NaN\<close>, for a string \<open>undefined\<close> and the empty string. An optional
  property is an \<open>option\<close>, \<open>None\<close> standing for \<open>undefined\<close>.
\<close>

definition nullish_or :: "'a option \<Rightarrow> 'a \<Rightarrow> 'a" where
  "nullish_or x d = (case x of None \<Rightarrow> d | Some v \<Rightarrow> v)"

definition falsy_or_number :: "number option \<Rightarrow> number \<Rightarrow> number" where
  "falsy_or_number x d =
     (case x of None \<Rightarrow> d | Some n \<Rightarrow> if n = Fin 0 \<or> n = NaN then d else n)"

definition falsy_or_string :: "string option \<Rightarrow> string \<Rightarrow> string" where
  "falsy_or_string x d = (case x of None \<Rightarrow> d | Some s \<Rightarrow> if s = [] then d else s)"

text \<open>
  JSON values. A JSON text is kept as the value it denotes (\<open>Text j\<close>) or as \<open>Malformed\<close>;
  \<open>JSON.stringify\<close> drops properties whose value is \<open>undefined\<close> and writes a number that
  is not finite as \<open>null\<close>.
\<close>

datatype json = JNull | JBool bool | JNum number | JStr string
  | JArr "json list" | JObj "(string \<times> json) list"

datatype json_text = Text json | Malformed

text \<open>
  The truth value of a value that was read from a property (\<open>!result.success\<close>,
  \<open>errorData.error || ...\<close>); a missing property reads as \<open>undefined\<close>.
\<close>

definition truthy :: "json option \<Rightarrow> bool" where
  "truthy v =
     (case v of
        None \<Rightarrow> False
      | Some JNull \<Rightarrow> False
      | Some (JBool b) \<Rightarrow> b
      | Some (JNum n) \<Rightarrow> (if n = Fin 0 \<or> n = NaN then False else True)
      | Some (JStr t) \<Rightarrow> (if t = [] then False else True)
      | Some (JArr xs) \<Rightarrow> True
      | Some (JObj kvs) \<Rightarrow> True)"

text \<open>
  The errors the code throws or receives, by class. \<open>Error\<close> is the plain built-in;
  \<open>AbortError\<close> is what \<open>fetch\<close> rejects with once its signal is aborted; the last four
  are the SDK's own classes (exceptions.ts). Every one is an instance of \<open>Error\<close>.
\<close>

datatype error = Error string | TypeError string | SyntaxError string | AbortError string
  | AuthenticationError string | RateLimitError string | ValidationError string
  | APIError string "nat option"

fun message :: "error \<Rightarrow> string" where
  "message (Error m) = m"
| "message (TypeError m) = m"
| "message (SyntaxError m) = m"
| "message (AbortError m) = m"
| "message (AuthenticationError m) = m"
| "message (RateLimitError m) = m"
| "message (ValidationError m) = m"
| "message (APIError m c) = m"

fun name :: "error \<Rightarrow> string" where
  "name (Error m) = ''Error''"
| "name (TypeError m) = ''TypeError''"
| "name (SyntaxError m) = ''SyntaxError''"
| "name (AbortError m) = ''AbortError''"
| "name (AuthenticationError m) = ''AuthenticationError''"
| "name (RateLimitError m) = ''RateLimitError''"
| "name (ValidationError m) = ''ValidationError''"
| "name (APIError m c) = ''APIError''"

fun statusCode :: "error \<Rightarrow> nat option" where
  "statusCode (AuthenticationError m) = Some 401"
| "statusCode (RateLimitError m) = Some 429"
| "statusCode (ValidationError m) = Some 400"
| "statusCode (APIError m c) = c"
| "statusCode _ = None"

definition JSON_parse :: "json_text \<Rightarrow> error + json" where
  "JSON_parse t = (case t of Text j \<Rightarrow> Inr j
     | Malformed \<Rightarrow> Inl (SyntaxError ''Unexpected token in JSON''))"

fun stringify_value :: "json \<Rightarrow> json" where
  "stringify_value (JNum n) = (case n of Fin r \<Rightarrow> JNum n | _ \<Rightarrow> JNull)"
| "stringify_value (JArr xs) = JArr (map stringify_value xs)"
| "stringify_value (JObj kvs) = JObj (map (\<lambda>(k, v). (k, stringify_value v)) kvs)"
| "stringify_value j = j"

definition JSON_stringify :: "json \<Rightarrow> json_text" where
  "JSON_stringify j = Text (stringify_value j)"

text \<open>An object literal whose optional properties may be \<open>undefined\<close>.\<close>

definition object :: "(string \<times> json option) list \<Rightarrow> json" where
  "object kvs = JObj (List.map_filter (\<lambda>(k, v). map_option (Pair k) v) kvs)"

text \<open>Reading a property of an object; a missing property reads as \<open>undefined\<close>.\<close>

fun property :: "json \<Rightarrow> string \<Rightarrow> json option" where
  "property (JObj kvs) k = map_of kvs k"
| "property _ k = None"

section \<open>Request models (models.ts)\<close>

text \<open>The fields are text, voice, language, speed, in this order.\<close>

datatype GenerateRequest = GenerateRequest string string string number

text \<open>The fields are text, language, speed.\<close>

datatype MultiVoiceRequest = MultiVoiceRequest string string number

definition GenerateRequest_constructor ::
  "string option \<Rightarrow> string option \<Rightarrow> string option \<Rightarrow> number option \<Rightarrow> error + GenerateRequest"
where
  "GenerateRequest_constructor txt voice language speed =
     (case txt of
        None \<Rightarrow> Inl (Error ''Text is required'')
      | Some t \<Rightarrow>
          if length t = 0 then Inl (Error ''Text is required'')
          else if length t > 5000 then Inl (Error ''Text must be 5000 characters or less'')
          else
            let s = nullish_or speed (Fin 1) in
            if js_less s (Fin 0.5) \<or> js_less (Fin 2) s
            then Inl (Error ''Speed must be between 0.5 and 2.0'')
            else Inr (GenerateRequest t (falsy_or_string voice ''heart'')
                        (falsy_or_string language ''american_english'') s))"

definition MultiVoiceRequest_constructor ::
  "string option \<Rightarrow> string option \<Rightarrow> number option \<Rightarrow> error + MultiVoiceRequest"
where
  "MultiVoiceRequest_constructor txt language speed =
     (case txt of
        None \<Rightarrow> Inl (Error ''Text is required'')
      | Some t \<Rightarrow>
          if length t = 0 then Inl (Error ''Text is required'')
          else if length t > 5000 then Inl (Error ''Text must be 5000 characters or less'')
          else
            let s = nullish_or speed (Fin 1) in
            if js_less s (Fin 0.5) \<or> js_less (Fin 2) s
            then Inl (Error ''Speed must be between 0.5 and 2.0'')
            else Inr (MultiVoiceRequest t (falsy_or_string language ''american_english'') s))"

fun GenerateRequest_toJSON :: "GenerateRequest \<Rightarrow> json" where
  "GenerateRequest_toJSON (GenerateRequest t v l s) =
     JObj [(''text'', JStr t), (''voice'', JStr v), (''language'', JStr l), (''speed'', JNum s)]"

fun MultiVoiceRequest_toJSON :: "MultiVoiceRequest \<Rightarrow> json" where
  "MultiVoiceRequest_toJSON (MultiVoiceRequest t l s) =
     JObj [(''text'', JStr t), (''language'', JStr l), (''speed'', JNum s)]"

section \<open>Response model and its base64 view (models.ts)\<close>

text \<open>
  A \<open>Buffer\<close> is a list of bytes. \<open>Buffer.toString('base64')\<close> and
  \<open>Buffer.from(s, 'base64')\<close> belong to the platform; they are modelled as the base64 of
  RFC 4648: three bytes become four six-bit digits, a last group of one or two bytes is
  padded with \<open>=\<close>, and the decoder reads digits up to the first \<open>=\<close>, skipping every
  character that is not a digit.
\<close>

type_synonym Buffer = "8 word list"

definition alphabet :: string where
  "alphabet = ''ABCDEFGHIJKLMNOPQRSTUVWXYZabcdefghijklmnopqrstuvwxyz0123456789+/''"

fun sextets :: "Buffer \<Rightarrow> nat list" where
  "sextets [] = []"
| "sextets [a] = [unat a div 4, unat a mod 4 * 16]"
| "sextets [a, b] = [unat a div 4, unat a mod 4 * 16 + unat b div 16, unat b mod 16 * 4]"
| "sextets (a # b # c # rest) =
     [unat a div 4, unat a mod 4 * 16 + unat b div 16,
      unat b mod 16 * 4 + unat c div 64, unat c mod 64] @ sextets rest"

definition padding :: "Buffer \<Rightarrow> string" where
  "padding bs = replicate ((3 - length bs mod 3) mod 3) (CHR ''='')"

definition base64_encode :: "Buffer \<Rightarrow> string" where
  "base64_encode bs = map (\<lambda>i. alphabet ! i) (sextets bs) @ padding bs"

fun index_of :: "'a list \<Rightarrow> 'a \<Rightarrow> nat" where
  "index_of [] x = 0"
| "index_of (y # ys) x = (if x = y then 0 else Suc (index_of ys x))"

fun octets :: "nat list \<Rightarrow> Buffer" where
  "octets (p # q # r # s # rest) =
     [of_nat (p * 4 + q div 16), of_nat (q mod 16 * 16 + r div 4), of_nat (r mod 4 * 64 + s)]
       @ octets rest"
| "octets [p, q, r] = [of_nat (p * 4 + q div 16), of_nat (q mod 16 * 16 + r div 4)]"
| "octets [p, q] = [of_nat (p * 4 + q div 16)]"
| "octets _ = []"

definition base64_decode :: "string \<Rightarrow> Buffer" where
  "base64_decode s =
     octets (map (index_of alphabet)
       (filter (\<lambda>c. c \<in> set alphabet) (takeWhile (\<lambda>c. c \<noteq> CHR ''='') s)))"

record GenerateResponse =
  audioData :: Buffer
  duration :: "number option"
  generationTime :: "number option"
  charactersProcessed :: "number option"

text \<open>
  The constructor copies an \<open>ArrayBuffer\<close> into a \<open>Buffer\<close> and keeps a \<open>Buffer\<close> as it
  is; both hold the same bytes.
\<close>

definition GenerateResponse_constructor ::
  "Buffer \<Rightarrow> number option \<Rightarrow> number option \<Rightarrow> number option \<Rightarrow> GenerateResponse"
where
  "GenerateResponse_constructor data d g n =
     \<lparr>audioData = data, duration = d, generationTime = g, charactersProcessed = n\<rparr>"

definition toBase64 :: "GenerateResponse \<Rightarrow> string" where
  "toBase64 r = base64_encode (audioData r)"

text \<open>Voice and language entries of the list endpoints: id, name and the optional fields.\<close>

datatype VoiceData = VoiceData string string "string option" "string option" "string option"

datatype LanguageData = LanguageData string string "string list option"

fun voice_id :: "VoiceData \<Rightarrow> string" where
  "voice_id (VoiceData i n g l d) = i"

fun voice_name :: "VoiceData \<Rightarrow> string" where
  "voice_name (VoiceData i n g l d) = n"

fun language_id :: "LanguageData \<Rightarrow> string" where
  "language_id (LanguageData i n vs) = i"

fun language_name :: "LanguageData \<Rightarrow> string" where
  "language_name (LanguageData i n vs) = n"

section \<open>Header parsing (client.ts)\<close>

text \<open>
  \<open>parseFloat\<close> and \<open>parseInt\<close> belong to the platform. The model reads, after leading
  white space, an optional sign and then \<open>Infinity\<close> or the longest decimal literal
  (digits, an optional fraction, an optional exponent); the value of the literal is
  returned exactly, which is what the platform returns whenever that value is a binary64
  number, as 2.5 and 100 are.
\<close>

definition is_space :: "char \<Rightarrow> bool" where
  "is_space c = (of_char c \<in> {9 :: nat, 10, 11, 12, 13, 32, 160})"

definition is_digit :: "char \<Rightarrow> bool" where
  "is_digit c = (48 \<le> (of_char c :: nat) \<and> (of_char c :: nat) \<le> 57)"

definition decimal :: "string \<Rightarrow> nat" where
  "decimal ds = foldl (\<lambda>acc c. acc * 10 + (of_char c - 48)) 0 ds"

definition sign_of :: "string \<Rightarrow> real \<times> string" where
  "sign_of s =
     (case s of
        c # r \<Rightarrow> if c = CHR ''+'' then (1, r) else if c = CHR ''-'' then (- 1, r) else (1, s)
      | [] \<Rightarrow> (1, s))"

definition exponent_of :: "string \<Rightarrow> int" where
  "exponent_of s =
     (case s of
        c # r \<Rightarrow>
          if c = CHR ''e'' \<or> c = CHR ''E'' then
            (let (sg, r') = sign_of r; ds = takeWhile is_digit r'
             in if ds = [] then 0 else if sg < 0 then - int (decimal ds) else int (decimal ds))
          else 0
      | [] \<Rightarrow> 0)"

definition scale :: "real \<Rightarrow> int \<Rightarrow> real" where
  "scale m e = (if 0 \<le> e then m * 10 ^ nat e else m / 10 ^ nat (- e))"

definition parseFloat :: "string \<Rightarrow> number" where
  "parseFloat str =
     (let (sg, s) = sign_of (dropWhile is_space str) in
      if prefix ''Infinity'' s then (if sg < 0 then NegInfinity else PosInfinity)
      else
        let ip = takeWhile is_digit s;
            r1 = dropWhile is_digit s;
            has_point = (r1 \<noteq> [] \<and> hd r1 = CHR ''.'');
            fp = (if has_point then takeWhile is_digit (tl r1) else []);
            r2 = (if has_point then dropWhile is_digit (tl r1) else r1)
        in if ip = [] \<and> fp = [] then NaN
           else Fin (sg * scale (real (decimal ip) + real (decimal fp) / 10 ^ length fp)
                           (exponent_of r2)))"

definition parseInt10 :: "string \<Rightarrow> number" where
  "parseInt10 str =
     (let (sg, s) = sign_of (dropWhile is_space str); ds = takeWhile is_digit s
      in if ds = [] then NaN else Fin (sg * real (decimal ds)))"

text \<open>
  \<open>value.replace('s', '')\<close> removes the first \<open>s\<close> of the header; a header that is
  absent (\<open>null\<close>) or empty is falsy.
\<close>

definition parseFloatHeader :: "string option \<Rightarrow> number option" where
  "parseFloatHeader v =
     (case v of
        None \<Rightarrow> None
      | Some s \<Rightarrow>
          if s = [] then None
          else let parsed = parseFloat (remove1 (CHR ''s'') s)
               in if isNaN parsed then None else Some parsed)"

definition parseIntHeader :: "string option \<Rightarrow> number option" where
  "parseIntHeader v =
     (case v of
        None \<Rightarrow> None
      | Some s \<Rightarrow>
          if s = [] then None
          else let parsed = parseInt10 s in if isNaN parsed then None else Some parsed)"

section \<open>The HTTP exchange and the file system\<close>

text \<open>
  The body of a response as \<open>response.json()\<close> yields it. \<open>NullBody\<close> is the JSON text
  \<open>null\<close>. \<open>ErrorData e\<close> is any other JSON value, given by what its property \<open>error\<close>
  reads as: \<open>None\<close> when the body has no such property (\<open>undefined\<close>), otherwise the
  value found there, which the cast \<open>as {error?: string}\<close> does not check and which
  may be any JSON value. The last two are the bodies of the two list endpoints, at the
  types the client casts them to.
\<close>

datatype payload = NullBody | ErrorData "json option" | VoicesData "VoiceData list"
  | LanguagesData "LanguageData list"

text \<open>
  A response, as the promise of \<open>fetch\<close> resolves with it once the status line and the
  headers have arrived. \<open>json\<close> is the outcome of \<open>response.json()\<close> (an error when the
  body is not JSON), \<open>arrayBuffer\<close> the bytes of the body, \<open>headers\<close> the lookup
  \<open>headers.get\<close> at the names the client asks for; \<open>body_time\<close> is the number of
  milliseconds the body still needs to arrive after the headers.
\<close>

record Response =
  status :: nat
  statusText :: string
  headers :: "string \<Rightarrow> string option"
  json :: "error + payload"
  arrayBuffer :: Buffer
  body_time :: nat

definition ok :: "Response \<Rightarrow> bool" where
  "ok r = (200 \<le> status r \<and> status r \<le> 299)"

text \<open>A request as \<open>fetch\<close> receives it; \<open>body\<close> is the value given to \<open>JSON.stringify\<close>.\<close>

record Request =
  url :: string
  http_method :: string
  request_headers :: "(string \<times> string) list"
  body :: "json option"

text \<open>
  The world outside the SDK. \<open>server\<close> answers a request: after some milliseconds either
  the status line and the headers of a response arrive (its body follows, \<open>body_time\<close>
  milliseconds later), or the network fails; \<open>sent\<close> logs every call of \<open>fetch\<close>;
  \<open>fs_module\<close> says whether \<open>import('fs')\<close> resolves, \<open>writable\<close> which paths
  \<open>writeFileSync\<close> can write, \<open>files\<close> what has been written; \<open>LANGVOICE_API_KEY\<close> is
  the environment variable; \<open>Number_toString\<close> is the platform's conversion of a number
  inside a template string; \<open>ToString\<close> is the platform's conversion of a value that is
  not a string to a string, which throws on an object that offers no usable \<open>toString\<close>
  or \<open>valueOf\<close>.
\<close>

record world =
  server :: "Request \<Rightarrow> nat \<times> (error + Response)"
  sent :: "Request list"
  fs_module :: bool
  writable :: "string \<Rightarrow> bool"
  files :: "string \<Rightarrow> Buffer option"
  LANGVOICE_API_KEY :: "string option"
  Number_toString :: "number \<Rightarrow> string"
  ToString :: "json \<Rightarrow> error + string"

text \<open>
  \<open>fetch(url, {..., signal})\<close> under the timer \<open>setTimeout(() => controller.abort(), ms)\<close>.
  The promise settles when the status line and the headers have arrived, or when the
  network has failed: \<open>latency\<close> is the time that takes. When it is longer than \<open>ms\<close> the
  timer fires first and the call rejects with an \<open>AbortError\<close>; otherwise the call
  settles with the server's outcome, the body of a response still to be read.
\<close>

definition fetch :: "nat \<Rightarrow> Request \<Rightarrow> world \<Rightarrow> (error + Response) \<times> world" where
  "fetch ms rq w =
     (let w' = w\<lparr>sent := sent w @ [rq]\<rparr> in
      case server w rq of
        (latency, outcome) \<Rightarrow>
          if ms < latency then (Inl (AbortError ''This operation was aborted''), w')
          else (outcome, w'))"

text \<open>
  The read of a body (\<open>response.json()\<close>, \<open>response.arrayBuffer()\<close>) of a response that
  was fetched under a signal. \<open>timer\<close> is what is left on the timer that aborts the
  signal, \<open>None\<close> once \<open>clearTimeout\<close> has run: a body that needs longer than what is
  left makes the read reject with an \<open>AbortError\<close>, and with no timer the read waits for
  the body however long it takes.
\<close>

definition read_body :: "nat option \<Rightarrow> Response \<Rightarrow> (error + 'a) \<Rightarrow> error + 'a" where
  "read_body timer response outcome =
     (case timer of
        None \<Rightarrow> outcome
      | Some left \<Rightarrow>
          if left < body_time response then Inl (AbortError ''This operation was aborted'')
          else outcome)"

definition writeFileSync :: "string \<Rightarrow> Buffer \<Rightarrow> world \<Rightarrow> world option" where
  "writeFileSync path data w =
     (if fs_module w \<and> writable w path then Some (w\<lparr>files := (files w)(path \<mapsto> data)\<rparr>)
      else None)"

function decimal_string :: "nat \<Rightarrow> string" where
  "decimal_string n =
     (if n < 10 then [''0123456789'' ! n]
      else decimal_string (n div 10) @ [''0123456789'' ! (n mod 10)])"
  by pat_completeness auto
termination
  by (relation "measure id") auto

declare decimal_string.simps [simp del]

definition template_number :: "world \<Rightarrow> number option \<Rightarrow> string" where
  "template_number w x = (case x of None \<Rightarrow> ''undefined'' | Some n \<Rightarrow> Number_toString w n)"

section \<open>The client (client.ts)\<close>

record client =
  apiKey :: string
  baseUrl :: string
  timeout :: nat

definition getEnvApiKey :: "world \<Rightarrow> string" where
  "getEnvApiKey w = falsy_or_string (LANGVOICE_API_KEY w) []"

definition LangVoiceClient_constructor ::
  "world \<Rightarrow> string option \<Rightarrow> string option \<Rightarrow> nat option \<Rightarrow> error + client"
where
  "LangVoiceClient_constructor w key base ms =
     (let k = falsy_or_string key (getEnvApiKey w) in
      if k = [] then
        Inl (AuthenticationError
          ''API key is required. Pass apiKey in options or set LANGVOICE_API_KEY environment variable.'')
      else
        Inr \<lparr>apiKey = k,
             baseUrl = falsy_or_string base ''https://www.langvoice.pro/api'',
             timeout = (case ms of None \<Rightarrow> 60000 | Some n \<Rightarrow> if n = 0 then 60000 else n)\<rparr>)"

text \<open>
  The read \<open>errorData.error\<close>: it throws a \<open>TypeError\<close> on \<open>null\<close>, and gives
  \<open>undefined\<close> on a body without that property.
\<close>

definition error_property :: "payload \<Rightarrow> error + json option" where
  "error_property d =
     (case d of
        NullBody \<Rightarrow> Inl (TypeError ''Cannot read properties of null (reading 'error')'')
      | ErrorData e \<Rightarrow> Inr e
      | _ \<Rightarrow> Inr None)"

text \<open>\<open>x || d\<close> on a value of any type: \<open>d\<close> replaces every falsy value.\<close>

definition falsy_or :: "json option \<Rightarrow> json \<Rightarrow> json" where
  "falsy_or x d = (case x of None \<Rightarrow> d | Some v \<Rightarrow> if truthy (Some v) then v else d)"

text \<open>
  \<open>super(message)\<close> of the error classes: the built-in \<open>Error\<close> stores the message
  converted to a string. A string is its own conversion; for any other value the
  conversion is the platform's, and may throw.
\<close>

definition message_string :: "world \<Rightarrow> json \<Rightarrow> error + string" where
  "message_string w v = (case v of JStr s \<Rightarrow> Inr s | _ \<Rightarrow> ToString w v)"

text \<open>The \<open>switch\<close> of \<open>handleResponseErrors\<close>: the class of the error, by status code.\<close>

definition status_error :: "nat \<Rightarrow> string \<Rightarrow> error" where
  "status_error code errorMessage =
     (if code = 401 then AuthenticationError errorMessage
      else if code = 429 then RateLimitError errorMessage
      else if code = 400 then ValidationError errorMessage
      else APIError errorMessage (Some code))"

text \<open>
  \<open>handleResponseErrors\<close> runs after \<open>clearTimeout\<close>, so it reads the body with no
  timer. Whatever the \<open>try\<close> block throws (a body that is not JSON, the read of
  \<open>error\<close> on \<open>null\<close>) is caught and replaced by the status text; the construction of the
  error is outside the \<open>try\<close>, so a conversion of the message that throws is not caught.
\<close>

definition handleResponseErrors :: "world \<Rightarrow> Response \<Rightarrow> error + unit" where
  "handleResponseErrors w response =
     (if ok response then Inr ()
      else
        let fallback = ''API error: '' @ decimal_string (status response);
            caught = JStr (falsy_or_string (Some (statusText response)) fallback);
            errorMessage =
              (case read_body None response (json response) of
                 Inr errorData \<Rightarrow>
                   (case error_property errorData of
                      Inr e \<Rightarrow> falsy_or e (JStr fallback)
                    | Inl thrown \<Rightarrow> caught)
               | Inl thrown \<Rightarrow> caught)
        in case message_string w errorMessage of
             Inl thrown \<Rightarrow> Inl thrown
           | Inr m \<Rightarrow> Inl (status_error (status response) m))"

text \<open>
  The \<open>catch\<close> block shared by \<open>request\<close> and \<open>requestBinary\<close>. In both, \<open>clearTimeout\<close>
  runs as soon as \<open>fetch\<close> has resolved, before the body is read: the timer covers the
  time to the headers only, and the body is read with no timer.
\<close>

definition on_catch :: "error \<Rightarrow> error" where
  "on_catch e = (if name e = ''AbortError'' then APIError ''Request timeout'' (Some 408) else e)"

definition make_request :: "client \<Rightarrow> string \<Rightarrow> string \<Rightarrow> json option \<Rightarrow> Request" where
  "make_request c m endpoint b =
     \<lparr>url = baseUrl c @ endpoint, http_method = m,
      request_headers = [(''X-API-Key'', apiKey c), (''Content-Type'', ''application/json'')],
      body = b\<rparr>"

definition request ::
  "client \<Rightarrow> string \<Rightarrow> string \<Rightarrow> json option \<Rightarrow> world
     \<Rightarrow> (error + payload \<times> (string \<Rightarrow> string option)) \<times> world"
where
  "request c m endpoint b w =
     (case fetch (timeout c) (make_request c m endpoint b) w of
        (fetched, w') \<Rightarrow>
          (case fetched of
             Inl e \<Rightarrow> (Inl (on_catch e), w')
           | Inr response \<Rightarrow>
               (case handleResponseErrors w' response of
                  Inl e \<Rightarrow> (Inl (on_catch e), w')
                | Inr u \<Rightarrow>
                    (case read_body None response (json response) of
                       Inl e \<Rightarrow> (Inl (on_catch e), w')
                     | Inr d \<Rightarrow> (Inr (d, headers response), w')))))"

definition requestBinary ::
  "client \<Rightarrow> string \<Rightarrow> json \<Rightarrow> world
     \<Rightarrow> (error + Buffer \<times> (string \<Rightarrow> string option)) \<times> world"
where
  "requestBinary c endpoint b w =
     (case fetch (timeout c) (make_request c ''POST'' endpoint (Some b)) w of
        (fetched, w') \<Rightarrow>
          (case fetched of
             Inl e \<Rightarrow> (Inl (on_catch e), w')
           | Inr response \<Rightarrow>
               (case handleResponseErrors w' response of
                  Inl e \<Rightarrow> (Inl (on_catch e), w')
                | Inr u \<Rightarrow>
                    (case read_body None response (Inr (arrayBuffer response)) of
                       Inl e \<Rightarrow> (Inl (on_catch e), w')
                     | Inr data \<Rightarrow> (Inr (data, headers response), w')))))"

text \<open>The part the three generating methods share: the response object built from a binary answer.\<close>

definition binary_response ::
  "(error + Buffer \<times> (string \<Rightarrow> string option)) \<times> world \<Rightarrow> (error + GenerateResponse) \<times> world"
where
  "binary_response r =
     (case r of
        (Inl e, w') \<Rightarrow> (Inl e, w')
      | (Inr (data, hs), w') \<Rightarrow>
          (Inr (GenerateResponse_constructor data
                  (parseFloatHeader (hs ''X-Audio-Duration''))
                  (parseFloatHeader (hs ''X-Generation-Time''))
                  (parseIntHeader (hs ''X-Characters-Processed''))), w'))"

definition generate ::
  "client \<Rightarrow> string option \<Rightarrow> string option \<Rightarrow> string option \<Rightarrow> number option \<Rightarrow> world
     \<Rightarrow> (error + GenerateResponse) \<times> world"
where
  "generate c txt voice language speed w =
     (case GenerateRequest_constructor txt voice language speed of
        Inl e \<Rightarrow> (Inl e, w)
      | Inr rq \<Rightarrow>
          binary_response (requestBinary c ''/tts/generate'' (GenerateRequest_toJSON rq) w))"

definition generateMultiVoice ::
  "client \<Rightarrow> string option \<Rightarrow> string option \<Rightarrow> number option \<Rightarrow> world
     \<Rightarrow> (error + GenerateResponse) \<times> world"
where
  "generateMultiVoice c txt language speed w =
     (case MultiVoiceRequest_constructor txt language speed of
        Inl e \<Rightarrow> (Inl e, w)
      | Inr rq \<Rightarrow>
          binary_response
            (requestBinary c ''/tts/multi-voice-text'' (MultiVoiceRequest_toJSON rq) w))"

text \<open>
  Modelled from the spec: the class \<open>VoiceCloningRequest\<close>, which client.ts imports from
  models.ts and models.ts does not define. The spec gives it text, a base64-encoded
  reference audio sample and speed, no language and no voice id, and the invariants of
  \<open>GenerateRequest\<close> as the spec states them: text of 1 to 5000 characters, speed in the
  inclusive range 0.5 to 2.0 with default 1.0, construction failing otherwise. The
  failures carry the messages of the two classes that models.ts does define; the wire
  names are those of the constructor call in \<open>generateCloned\<close>.
\<close>

datatype VoiceCloningRequest = VoiceCloningRequest string string number

text \<open>
  Modelled from the spec: the speed invariant the spec gives the request models, "speed
  (numeric, inclusive range 0.5--2.0)"; models.ts has no function of this name.
\<close>

definition speed_in_range :: "number \<Rightarrow> bool" where
  "speed_in_range s = (case s of Fin r \<Rightarrow> 0.5 \<le> r \<and> r \<le> 2 | _ \<Rightarrow> False)"

text \<open>
  Modelled from the spec: the constructor of \<open>VoiceCloningRequest\<close>, absent from
  models.ts; "same text-length and speed invariants" as \<open>GenerateRequest\<close>, for which
  the spec says "construction fails if text is empty, exceeds 5000 characters, or speed is
  out of range".
\<close>

definition VoiceCloningRequest_constructor ::
  "string option \<Rightarrow> string \<Rightarrow> number option \<Rightarrow> error + VoiceCloningRequest"
where
  "VoiceCloningRequest_constructor txt voice_sample_base64 speed =
     (case txt of
        None \<Rightarrow> Inl (Error ''Text is required'')
      | Some t \<Rightarrow>
          if length t < 1 then Inl (Error ''Text is required'')
          else if 5000 < length t then Inl (Error ''Text must be 5000 characters or less'')
          else if speed_in_range (nullish_or speed (Fin 1))
          then Inr (VoiceCloningRequest t voice_sample_base64 (nullish_or speed (Fin 1)))
          else Inl (Error ''Speed must be between 0.5 and 2.0''))"

text \<open>
  Modelled from the spec: \<open>toJSON\<close> of \<open>VoiceCloningRequest\<close>, absent from models.ts;
  the request "serializes to the wire format" with its three fields.
\<close>

fun VoiceCloningRequest_toJSON :: "VoiceCloningRequest \<Rightarrow> json" where
  "VoiceCloningRequest_toJSON (VoiceCloningRequest t b s) =
     JObj [(''text'', JStr t), (''voice_sample_base64'', JStr b), (''speed'', JNum s)]"

definition generateCloned ::
  "client \<Rightarrow> string option \<Rightarrow> string \<Rightarrow> number option \<Rightarrow> world
     \<Rightarrow> (error + GenerateResponse) \<times> world"
where
  "generateCloned c txt voiceSampleBase64 speed w =
     (case VoiceCloningRequest_constructor txt voiceSampleBase64 speed of
        Inl e \<Rightarrow> (Inl e, w)
      | Inr rq \<Rightarrow>
          binary_response
            (requestBinary c ''/tts/generate-cloned'' (VoiceCloningRequest_toJSON rq) w))"

text \<open>
  \<open>new VoicesResponse(data).voices\<close> maps over \<open>data.voices\<close>; on a body without that
  property the read of \<open>map\<close> throws a \<open>TypeError\<close>, and so does the read of the
  property on \<open>null\<close>.
\<close>

definition listVoices :: "client \<Rightarrow> world \<Rightarrow> (error + VoiceData list) \<times> world" where
  "listVoices c w =
     (case request c ''GET'' ''/tts/voices'' None w of
        (Inl e, w') \<Rightarrow> (Inl e, w')
      | (Inr (d, hs), w') \<Rightarrow>
          (case d of
             VoicesData vs \<Rightarrow> (Inr vs, w')
           | NullBody \<Rightarrow>
               (Inl (TypeError ''Cannot read properties of null (reading 'voices')''), w')
           | _ \<Rightarrow> (Inl (TypeError ''Cannot read properties of undefined (reading 'map')''), w')))"

definition listLanguages :: "client \<Rightarrow> world \<Rightarrow> (error + LanguageData list) \<times> world" where
  "listLanguages c w =
     (case request c ''GET'' ''/tts/languages'' None w of
        (Inl e, w') \<Rightarrow> (Inl e, w')
      | (Inr (d, hs), w') \<Rightarrow>
          (case d of
             LanguagesData ls \<Rightarrow> (Inr ls, w')
           | NullBody \<Rightarrow>
               (Inl (TypeError ''Cannot read properties of null (reading 'languages')''), w')
           | _ \<Rightarrow> (Inl (TypeError ''Cannot read properties of undefined (reading 'map')''), w')))"

text \<open>The convenience method of the client; its parameters default when \<open>undefined\<close>.\<close>

definition client_textToSpeech ::
  "client \<Rightarrow> string option \<Rightarrow> string option \<Rightarrow> string option \<Rightarrow> number option \<Rightarrow> world
     \<Rightarrow> (error + Buffer) \<times> world"
where
  "client_textToSpeech c txt voice language speed w =
     (case generate c txt (Some (nullish_or voice ''heart''))
             (Some (nullish_or language ''american_english'')) (Some (nullish_or speed (Fin 1))) w of
        (Inl e, w') \<Rightarrow> (Inl e, w')
      | (Inr response, w') \<Rightarrow> (Inr (audioData response), w'))"

section \<open>Shared tool constants and argument bags (tools/types.ts)\<close>

definition TOOL_TTS :: string where
  "TOOL_TTS = ''langvoice_text_to_speech''"

definition TOOL_MULTI_VOICE :: string where
  "TOOL_MULTI_VOICE = ''langvoice_multi_voice_speech''"

definition TOOL_LIST_VOICES :: string where
  "TOOL_LIST_VOICES = ''langvoice_list_voices''"

definition TOOL_LIST_LANGUAGES :: string where
  "TOOL_LIST_LANGUAGES = ''langvoice_list_languages''"

text \<open>
  The argument bag of a tool call, read at the types the adapters cast its properties to;
  a property that is missing is \<open>None\<close>.
\<close>

record Args =
  arg_text :: "string option"
  arg_voice :: "string option"
  arg_language :: "string option"
  arg_speed :: "number option"
  arg_output_file :: "string option"

text \<open>
  The argument string of a tool call: a JSON text that encodes an argument bag, or a text
  that is not JSON, on which \<open>JSON.parse\<close> throws.
\<close>

datatype arguments_text = Encodes Args | NotJSON

definition parse_arguments :: "arguments_text \<Rightarrow> error + Args" where
  "parse_arguments t = (case t of Encodes a \<Rightarrow> Inr a
     | NotJSON \<Rightarrow> Inl (SyntaxError ''Unexpected token in JSON''))"



definition voice_entry :: "VoiceData \<Rightarrow> json" where
  "voice_entry v = JObj [(''id'', JStr (voice_id v)), (''name'', JStr (voice_name v))]"

definition language_entry :: "LanguageData \<Rightarrow> json" where
  "language_entry l = JObj [(''id'', JStr (language_id l)), (''name'', JStr (language_name l))]"

text \<open>
  The failure envelope \<open>{success: false, error: error.message}\<close> of the adapters' \<open>catch\<close>
  blocks. Every error of this model is an instance of \<open>Error\<close>, so the alternative
  \<open>'Unknown error'\<close> of \<open>error instanceof Error ? error.message : 'Unknown error'\<close> is
  never taken.
\<close>

definition failure :: "error \<Rightarrow> json" where
  "failure e = object [(''success'', Some (JBool False)), (''error'', Some (JStr (message e)))]"

section \<open>The generic toolkit (tools/generic-tools.ts)\<close>

definition LangVoiceToolkit_constructor :: "world \<Rightarrow> string option \<Rightarrow> error + client" where
  "LangVoiceToolkit_constructor w key = LangVoiceClient_constructor w key None None"

definition LangVoiceToolkit_textToSpeech ::
  "client \<Rightarrow> string option \<Rightarrow> string option \<Rightarrow> string option \<Rightarrow> number option \<Rightarrow> world
     \<Rightarrow> json \<times> world"
where
  "LangVoiceToolkit_textToSpeech c txt voice language speed w =
     (case generate c txt (Some (falsy_or_string voice ''heart''))
             (Some (falsy_or_string language ''american_english''))
             (Some (falsy_or_number speed (Fin 1))) w of
        (Inr response, w') \<Rightarrow>
          (object [(''success'', Some (JBool True)),
                   (''audioBase64'', Some (JStr (toBase64 response))),
                   (''duration'', map_option JNum (duration response)),
                   (''charactersProcessed'', map_option JNum (charactersProcessed response))], w')
      | (Inl e, w') \<Rightarrow> (failure e, w'))"

definition LangVoiceToolkit_multiVoiceSpeech ::
  "client \<Rightarrow> string option \<Rightarrow> string option \<Rightarrow> number option \<Rightarrow> world \<Rightarrow> json \<times> world"
where
  "LangVoiceToolkit_multiVoiceSpeech c txt language speed w =
     (case generateMultiVoice c txt (Some (falsy_or_string language ''american_english''))
             (Some (falsy_or_number speed (Fin 1))) w of
        (Inr response, w') \<Rightarrow>
          (object [(''success'', Some (JBool True)),
                   (''audioBase64'', Some (JStr (toBase64 response))),
                   (''duration'', map_option JNum (duration response))], w')
      | (Inl e, w') \<Rightarrow> (failure e, w'))"

definition LangVoiceToolkit_listVoices :: "client \<Rightarrow> world \<Rightarrow> json \<times> world" where
  "LangVoiceToolkit_listVoices c w =
     (case listVoices c w of
        (Inr voices, w') \<Rightarrow>
          (object [(''success'', Some (JBool True)),
                   (''voices'', Some (JArr (map voice_entry voices)))], w')
      | (Inl e, w') \<Rightarrow> (failure e, w'))"

definition LangVoiceToolkit_listLanguages :: "client \<Rightarrow> world \<Rightarrow> json \<times> world" where
  "LangVoiceToolkit_listLanguages c w =
     (case listLanguages c w of
        (Inr languages, w') \<Rightarrow>
          (object [(''success'', Some (JBool True)),
                   (''languages'', Some (JArr (map language_entry languages)))], w')
      | (Inl e, w') \<Rightarrow> (failure e, w'))"

definition LangVoiceToolkit_handleToolCall ::
  "client \<Rightarrow> string \<Rightarrow> Args \<Rightarrow> world \<Rightarrow> json \<times> world"
where
  "LangVoiceToolkit_handleToolCall c toolName args w =
     (if toolName = TOOL_TTS then
        LangVoiceToolkit_textToSpeech c (arg_text args) (arg_voice args) (arg_language args)
          (arg_speed args) w
      else if toolName = TOOL_MULTI_VOICE then
        LangVoiceToolkit_multiVoiceSpeech c (arg_text args) (arg_language args) (arg_speed args) w
      else if toolName = TOOL_LIST_VOICES then LangVoiceToolkit_listVoices c w
      else if toolName = TOOL_LIST_LANGUAGES then LangVoiceToolkit_listLanguages c w
      else (object [(''success'', Some (JBool False)),
                    (''error'', Some (JStr (''Unknown tool: '' @ toolName)))], w))"

definition LangVoiceToolkit_handleToolCallJson ::
  "client \<Rightarrow> string \<Rightarrow> Args \<Rightarrow> world \<Rightarrow> json_text \<times> world"
where
  "LangVoiceToolkit_handleToolCallJson c toolName args w =
     (case LangVoiceToolkit_handleToolCall c toolName args w of
        (result, w') \<Rightarrow> (JSON_stringify result, w'))"

text \<open>
  The three explicit save calls read \<open>result.audioBase64\<close> at its declared type: a string
  or nothing.
\<close>

definition LangVoiceToolkit_saveAudio :: "json \<Rightarrow> string \<Rightarrow> world \<Rightarrow> bool \<times> world" where
  "LangVoiceToolkit_saveAudio result outputPath w =
     (if \<not> (truthy (property result ''success'') \<and> truthy (property result ''audioBase64''))
      then (False, w)
      else
        (case property result ''audioBase64'' of
           Some (JStr b) \<Rightarrow>
             (case writeFileSync outputPath (base64_decode b) w of
                Some w' \<Rightarrow> (True, w')
              | None \<Rightarrow> (False, w))
         | _ \<Rightarrow> (False, w)))"

definition LangVoiceToolkit_getAudioBuffer :: "json \<Rightarrow> Buffer option" where
  "LangVoiceToolkit_getAudioBuffer result =
     (if \<not> (truthy (property result ''success'') \<and> truthy (property result ''audioBase64''))
      then None
      else (case property result ''audioBase64'' of
              Some (JStr b) \<Rightarrow> Some (base64_decode b)
            | _ \<Rightarrow> None))"

section \<open>The OpenAI adapter (tools/openai-tools.ts)\<close>

text \<open>
  \<open>handleOpenAIToolCall\<close> builds its client before its \<open>try\<close> block; the result is the
  JSON text it returns, or the error it rejects with.
\<close>

definition handleOpenAIToolCall ::
  "string \<Rightarrow> Args \<Rightarrow> string option \<Rightarrow> world \<Rightarrow> (error + json_text) \<times> world"
where
  "handleOpenAIToolCall toolName args key w =
     (case LangVoiceClient_constructor w key None None of
        Inl e \<Rightarrow> (Inl e, w)
      | Inr c \<Rightarrow>
          if toolName = TOOL_TTS then
            (case generate c (arg_text args) (Some (falsy_or_string (arg_voice args) ''heart''))
                    (Some (falsy_or_string (arg_language args) ''american_english''))
                    (Some (falsy_or_number (arg_speed args) (Fin 1))) w of
               (Inr response, w') \<Rightarrow>
                 (Inr (JSON_stringify (object
                    [(''success'', Some (JBool True)),
                     (''audioBase64'', Some (JStr (toBase64 response))),
                     (''duration'', map_option JNum (duration response)),
                     (''charactersProcessed'', map_option JNum (charactersProcessed response))])),
                  w')
             | (Inl e, w') \<Rightarrow> (Inr (JSON_stringify (failure e)), w'))
          else if toolName = TOOL_MULTI_VOICE then
            (case generateMultiVoice c (arg_text args)
                    (Some (falsy_or_string (arg_language args) ''american_english''))
                    (Some (falsy_or_number (arg_speed args) (Fin 1))) w of
               (Inr response, w') \<Rightarrow>
                 (Inr (JSON_stringify (object
                    [(''success'', Some (JBool True)),
                     (''audioBase64'', Some (JStr (toBase64 response))),
                     (''duration'', map_option JNum (duration response))])), w')
             | (Inl e, w') \<Rightarrow> (Inr (JSON_stringify (failure e)), w'))
          else if toolName = TOOL_LIST_VOICES then
            (case listVoices c w of
               (Inr voices, w') \<Rightarrow>
                 (Inr (JSON_stringify (object
                    [(''success'', Some (JBool True)),
                     (''voices'', Some (JArr (map voice_entry voices)))])), w')
             | (Inl e, w') \<Rightarrow> (Inr (JSON_stringify (failure e)), w'))
          else if toolName = TOOL_LIST_LANGUAGES then
            (case listLanguages c w of
               (Inr languages, w') \<Rightarrow>
                 (Inr (JSON_stringify (object
                    [(''success'', Some (JBool True)),
                     (''languages'', Some (JArr (map language_entry languages)))])), w')
             | (Inl e, w') \<Rightarrow> (Inr (JSON_stringify (failure e)), w'))
          else
            (Inr (JSON_stringify (object
               [(''success'', Some (JBool False)),
                (''error'', Some (JStr (''Unknown tool: '' @ toolName)))])), w))"

text \<open>
  \<open>handleCall\<close> of \<open>LangVoiceOpenAITools\<close>: the tool call carries the function name and
  the argument string; the object holds a client built at construction.
\<close>

definition LangVoiceOpenAITools_handleCall ::
  "client \<Rightarrow> string \<Rightarrow> arguments_text \<Rightarrow> world \<Rightarrow> (error + json) \<times> world"
where
  "LangVoiceOpenAITools_handleCall c function_name function_arguments w =
     (case parse_arguments function_arguments of
        Inl e \<Rightarrow> (Inl e, w)
      | Inr args \<Rightarrow>
          (case handleOpenAIToolCall function_name args (Some (apiKey c)) w of
             (Inl e, w') \<Rightarrow> (Inl e, w')
           | (Inr resultJson, w') \<Rightarrow> (JSON_parse resultJson, w')))"

definition LangVoiceOpenAITools_saveAudioFromResult ::
  "json \<Rightarrow> string \<Rightarrow> world \<Rightarrow> bool \<times> world"
where
  "LangVoiceOpenAITools_saveAudioFromResult result outputPath w =
     (if \<not> (truthy (property result ''success'') \<and> truthy (property result ''audioBase64''))
      then (False, w)
      else
        (case property result ''audioBase64'' of
           Some (JStr b) \<Rightarrow>
             (case writeFileSync outputPath (base64_decode b) w of
                Some w' \<Rightarrow> (True, w')
              | None \<Rightarrow> (False, w))
         | _ \<Rightarrow> (False, w)))"

definition LangVoiceOpenAITools_getAudioBuffer :: "json \<Rightarrow> Buffer option" where
  "LangVoiceOpenAITools_getAudioBuffer result =
     (if \<not> (truthy (property result ''success'') \<and> truthy (property result ''audioBase64''))
      then None
      else (case property result ''audioBase64'' of
              Some (JStr b) \<Rightarrow> Some (base64_decode b)
            | _ \<Rightarrow> None))"

section \<open>The LangChain adapter (tools/langchain-tools.ts)\<close>

text \<open>
  The two marks that open a result string, as the bytes of their UTF-8 encoding: the
  check mark U+2705 and the cross mark U+274C.
\<close>

definition check_mark :: string where
  "check_mark = [CHR 0xE2, CHR 0x9C, CHR 0x85]"

definition cross_mark :: string where
  "cross_mark = [CHR 0xE2, CHR 0x9D, CHR 0x8C]"

record BaseLangVoiceTool =
  tool_client :: client
  outputFile :: "string option"

definition LangVoiceTTSTool_constructor ::
  "world \<Rightarrow> string option \<Rightarrow> string option \<Rightarrow> error + BaseLangVoiceTool"
where
  "LangVoiceTTSTool_constructor w key out =
     (case LangVoiceClient_constructor w key None None of
        Inl e \<Rightarrow> Inl e
      | Inr c \<Rightarrow> Inr \<lparr>tool_client = c, outputFile = Some (falsy_or_string out ''output.mp3'')\<rparr>)"

definition LangVoiceMultiVoiceTool_constructor ::
  "world \<Rightarrow> string option \<Rightarrow> string option \<Rightarrow> error + BaseLangVoiceTool"
where
  "LangVoiceMultiVoiceTool_constructor w key out =
     (case LangVoiceClient_constructor w key None None of
        Inl e \<Rightarrow> Inl e
      | Inr c \<Rightarrow> Inr \<lparr>tool_client = c, outputFile = out\<rparr>)"

text \<open>The input of \<open>call\<close>: a raw string, taken as the text, or an argument object.\<close>

datatype tool_input = InputString string | InputObject Args

definition input_params :: "tool_input \<Rightarrow> Args" where
  "input_params input =
     (case input of
        InputString t \<Rightarrow>
          \<lparr>arg_text = Some t, arg_voice = None, arg_language = None, arg_speed = None,
           arg_output_file = None\<rparr>
      | InputObject a \<Rightarrow> a)"

definition LangVoiceTTSTool_call :: "BaseLangVoiceTool \<Rightarrow> tool_input \<Rightarrow> world \<Rightarrow> string \<times> world"
where
  "LangVoiceTTSTool_call tool input w =
     (let params = input_params input in
      case generate (tool_client tool) (arg_text params)
             (Some (falsy_or_string (arg_voice params) ''heart''))
             (Some (falsy_or_string (arg_language params) ''american_english''))
             (Some (falsy_or_number (arg_speed params) (Fin 1))) w of
        (Inl e, w') \<Rightarrow> (cross_mark @ '' Error generating speech: '' @ message e, w')
      | (Inr response, w') \<Rightarrow>
          let preview =
                check_mark @ '' Speech generated! Duration: ''
                  @ template_number w' (duration response) @ ''s. Audio (base64): ''
                  @ take 100 (toBase64 response) @ ''...''
          in if falsy_or_string (outputFile tool) [] = [] then (preview, w')
             else
               (case writeFileSync (falsy_or_string (outputFile tool) []) (audioData response) w' of
                  Some w'' \<Rightarrow>
                    (check_mark @ '' Speech generated and saved to ''
                       @ falsy_or_string (outputFile tool) [] @ ''! Duration: ''
                       @ template_number w' (duration response) @ ''s, Characters: ''
                       @ template_number w' (charactersProcessed response), w'')
                | None \<Rightarrow> (preview, w')))"

definition LangVoiceMultiVoiceTool_call ::
  "BaseLangVoiceTool \<Rightarrow> tool_input \<Rightarrow> world \<Rightarrow> string \<times> world"
where
  "LangVoiceMultiVoiceTool_call tool input w =
     (let params = input_params input in
      case generateMultiVoice (tool_client tool) (arg_text params)
             (Some (falsy_or_string (arg_language params) ''american_english''))
             (Some (falsy_or_number (arg_speed params) (Fin 1))) w of
        (Inl e, w') \<Rightarrow> (cross_mark @ '' Error generating multi-voice speech: '' @ message e, w')
      | (Inr response, w') \<Rightarrow>
          let plain =
                check_mark @ '' Multi-voice speech generated! Duration: ''
                  @ template_number w' (duration response)
                  @ ''s. Audio available in base64 format.''
          in if falsy_or_string (outputFile tool) [] = [] then (plain, w')
             else
               (case writeFileSync (falsy_or_string (outputFile tool) []) (audioData response) w' of
                  Some w'' \<Rightarrow>
                    (check_mark @ '' Multi-voice speech generated and saved to ''
                       @ falsy_or_string (outputFile tool) [] @ ''! Duration: ''
                       @ template_number w' (duration response) @ ''s'', w'')
                | None \<Rightarrow> (plain, w')))"

fun join :: "string list \<Rightarrow> string \<Rightarrow> string" where
  "join [] sep = []"
| "join [x] sep = x"
| "join (x # y # ys) sep = x @ sep @ join (y # ys) sep"

definition LangVoiceVoicesTool_call :: "BaseLangVoiceTool \<Rightarrow> world \<Rightarrow> string \<times> world" where
  "LangVoiceVoicesTool_call tool w =
     (case listVoices (tool_client tool) w of
        (Inr voices, w') \<Rightarrow>
          (''Available voices: ''
             @ join (map (\<lambda>v. voice_id v @ '' ('' @ voice_name v @ '')'') voices) '', '', w')
      | (Inl e, w') \<Rightarrow> (''Error listing voices: '' @ message e, w'))"

definition LangVoiceLanguagesTool_call :: "BaseLangVoiceTool \<Rightarrow> world \<Rightarrow> string \<times> world" where
  "LangVoiceLanguagesTool_call tool w =
     (case listLanguages (tool_client tool) w of
        (Inr languages, w') \<Rightarrow>
          (''Supported languages: ''
             @ join (map (\<lambda>l. language_id l @ '' ('' @ language_name l @ '')'') languages) '', '',
           w')
      | (Inl e, w') \<Rightarrow> (''Error listing languages: '' @ message e, w'))"

section \<open>The AutoGen adapter (tools/autogen-tools.ts)\<close>

record LangVoiceAutoGenTools =
  autogen_client :: client
  autogen_outputFile :: string
  autoSave :: bool

definition LangVoiceAutoGenTools_constructor ::
  "world \<Rightarrow> string option \<Rightarrow> string option \<Rightarrow> bool option \<Rightarrow> error + LangVoiceAutoGenTools"
where
  "LangVoiceAutoGenTools_constructor w key out save =
     (case LangVoiceClient_constructor w key None None of
        Inl e \<Rightarrow> Inl e
      | Inr c \<Rightarrow>
          Inr \<lparr>autogen_client = c, autogen_outputFile = falsy_or_string out ''output.mp3'',
               autoSave = nullish_or save True\<rparr>)"

definition textToSpeechHandler ::
  "LangVoiceAutoGenTools \<Rightarrow> Args \<Rightarrow> world \<Rightarrow> json_text \<times> world"
where
  "textToSpeechHandler tools args w =
     (case generate (autogen_client tools) (arg_text args)
             (Some (falsy_or_string (arg_voice args) ''heart''))
             (Some (falsy_or_string (arg_language args) ''american_english''))
             (Some (falsy_or_number (arg_speed args) (Fin 1))) w of
        (Inl e, w') \<Rightarrow> (JSON_stringify (failure e), w')
      | (Inr response, w') \<Rightarrow>
          let outputPath = falsy_or_string (arg_output_file args) (autogen_outputFile tools) in
          if autoSave tools then
            (case writeFileSync outputPath (audioData response) w' of
               Some w'' \<Rightarrow>
                 (JSON_stringify (object
                    [(''success'', Some (JBool True)),
                     (''message'', Some (JStr (''Speech generated and saved to '' @ outputPath))),
                     (''duration'', map_option JNum (duration response)),
                     (''charactersProcessed'', map_option JNum (charactersProcessed response)),
                     (''outputFile'', Some (JStr outputPath))]), w'')
             | None \<Rightarrow>
                 (JSON_stringify (object
                    [(''success'', Some (JBool True)),
                     (''message'',
                        Some (JStr ''Speech generated (file save not available in this environment)'')),
                     (''duration'', map_option JNum (duration response)),
                     (''charactersProcessed'', map_option JNum (charactersProcessed response)),
                     (''audioBase64Preview'',
                        Some (JStr (take 100 (toBase64 response) @ ''...'')))]), w'))
          else
            (JSON_stringify (object
               [(''success'', Some (JBool True)),
                (''duration'', map_option JNum (duration response)),
                (''charactersProcessed'', map_option JNum (charactersProcessed response)),
                (''audioBase64'', Some (JStr (toBase64 response)))]), w'))"

definition multiVoiceHandler ::
  "LangVoiceAutoGenTools \<Rightarrow> Args \<Rightarrow> world \<Rightarrow> json_text \<times> world"
where
  "multiVoiceHandler tools args w =
     (case generateMultiVoice (autogen_client tools) (arg_text args)
             (Some (falsy_or_string (arg_language args) ''american_english''))
             (Some (falsy_or_number (arg_speed args) (Fin 1))) w of
        (Inl e, w') \<Rightarrow> (JSON_stringify (failure e), w')
      | (Inr response, w') \<Rightarrow>
          let outputPath = falsy_or_string (arg_output_file args) (autogen_outputFile tools) in
          if autoSave tools then
            (case writeFileSync outputPath (audioData response) w' of
               Some w'' \<Rightarrow>
                 (JSON_stringify (object
                    [(''success'', Some (JBool True)),
                     (''message'',
                        Some (JStr (''Multi-voice speech generated and saved to '' @ outputPath))),
                     (''duration'', map_option JNum (duration response)),
                     (''outputFile'', Some (JStr outputPath))]), w'')
             | None \<Rightarrow>
                 (JSON_stringify (object
                    [(''success'', Some (JBool True)),
                     (''message'', Some (JStr ''Multi-voice speech generated'')),
                     (''duration'', map_option JNum (duration response))]), w'))
          else
            (JSON_stringify (object
               [(''success'', Some (JBool True)),
                (''duration'', map_option JNum (duration response)),
                (''audioBase64'', Some (JStr (toBase64 response)))]), w'))"

definition listVoicesHandler :: "LangVoiceAutoGenTools \<Rightarrow> world \<Rightarrow> json_text \<times> world" where
  "listVoicesHandler tools w =
     (case listVoices (autogen_client tools) w of
        (Inr voices, w') \<Rightarrow>
          (JSON_stringify (object
             [(''success'', Some (JBool True)),
              (''voices'', Some (JArr (map voice_entry voices))),
              (''count'', Some (JNum (Fin (real (length voices)))))]), w')
      | (Inl e, w') \<Rightarrow> (JSON_stringify (failure e), w'))"

definition listLanguagesHandler :: "LangVoiceAutoGenTools \<Rightarrow> world \<Rightarrow> json_text \<times> world" where
  "listLanguagesHandler tools w =
     (case listLanguages (autogen_client tools) w of
        (Inr languages, w') \<Rightarrow>
          (JSON_stringify (object
             [(''success'', Some (JBool True)),
              (''languages'', Some (JArr (map language_entry languages))),
              (''count'', Some (JNum (Fin (real (length languages)))))]), w')
      | (Inl e, w') \<Rightarrow> (JSON_stringify (failure e), w'))"

text \<open>
  \<open>getFunctionMap()\<close> returns an object literal with the four tool names as its own
  properties. \<open>functionMap[call.name]\<close> is a property read on that object, so a name it
  does not own is looked up on \<open>Object.prototype\<close>, whose properties are listed here.
\<close>

definition Object_prototype :: "string list" where
  "Object_prototype =
     [''constructor'', ''__defineGetter__'', ''__defineSetter__'', ''hasOwnProperty'',
      ''__lookupGetter__'', ''__lookupSetter__'', ''isPrototypeOf'', ''propertyIsEnumerable'',
      ''toString'', ''valueOf'', ''__proto__'', ''toLocaleString'']"

datatype handler = TextToSpeech | MultiVoice | ListVoices | ListLanguages | Inherited string

definition getFunctionMap :: "string \<Rightarrow> handler option" where
  "getFunctionMap n =
     (if n = TOOL_TTS then Some TextToSpeech
      else if n = TOOL_MULTI_VOICE then Some MultiVoice
      else if n = TOOL_LIST_VOICES then Some ListVoices
      else if n = TOOL_LIST_LANGUAGES then Some ListLanguages
      else if n \<in> set Object_prototype then Some (Inherited n)
      else None)"

text \<open>
  What \<open>handleFunctionCall\<close> resolves to: the JSON text of a handler, or what an inherited
  property gives when called as \<open>handler(args)\<close>, that is with \<open>this\<close> undefined:
  \<open>toString\<close> returns a plain string, \<open>constructor\<close> (which is \<open>Object\<close>) returns its
  argument, \<open>__proto__\<close> is an object and not a function, and every other method converts
  \<open>this\<close> to an object first, which throws.
\<close>

datatype returned = JsonText json_text | PlainString string | ArgumentObject Args

definition call_inherited :: "string \<Rightarrow> Args \<Rightarrow> error + returned" where
  "call_inherited n args =
     (if n = ''__proto__'' then Inl (TypeError ''handler is not a function'')
      else if n = ''toString'' then Inr (PlainString ''[object Undefined]'')
      else if n = ''constructor'' then Inr (ArgumentObject args)
      else Inl (TypeError ''Cannot convert undefined or null to object''))"

text \<open>The \<open>arguments\<close> of an AutoGen call: an object, or a string to be parsed.\<close>

datatype call_arguments = ArgumentsObject Args | ArgumentsString arguments_text

definition handleFunctionCall ::
  "LangVoiceAutoGenTools \<Rightarrow> string \<Rightarrow> call_arguments \<Rightarrow> world \<Rightarrow> (error + returned) \<times> world"
where
  "handleFunctionCall tools call_name call_args w =
     (case (case call_args of ArgumentsString t \<Rightarrow> parse_arguments t
                            | ArgumentsObject a \<Rightarrow> Inr a) of
        Inl e \<Rightarrow> (Inl e, w)
      | Inr args \<Rightarrow>
          (case getFunctionMap call_name of
             None \<Rightarrow>
               (Inr (JsonText (JSON_stringify (object
                  [(''success'', Some (JBool False)),
                   (''error'', Some (JStr (''Unknown function: '' @ call_name)))]))), w)
           | Some TextToSpeech \<Rightarrow>
               (case textToSpeechHandler tools args w of (t, w') \<Rightarrow> (Inr (JsonText t), w'))
           | Some MultiVoice \<Rightarrow>
               (case multiVoiceHandler tools args w of (t, w') \<Rightarrow> (Inr (JsonText t), w'))
           | Some ListVoices \<Rightarrow>
               (case listVoicesHandler tools w of (t, w') \<Rightarrow> (Inr (JsonText t), w'))
           | Some ListLanguages \<Rightarrow>
               (case listLanguagesHandler tools w of (t, w') \<Rightarrow> (Inr (JsonText t), w'))
           | Some (Inherited n) \<Rightarrow> (call_inherited n args, w)))"

text \<open>The direct methods return result objects; \<open>audioBuffer\<close> holds the bytes themselves.\<close>

definition generateSpeech ::
  "LangVoiceAutoGenTools \<Rightarrow> string option \<Rightarrow> string option \<Rightarrow> string option \<Rightarrow> number option
     \<Rightarrow> world \<Rightarrow> (json \<times> Buffer option) \<times> world"
where
  "generateSpeech tools txt voice language speed w =
     (case generate (autogen_client tools) txt (Some (falsy_or_string voice ''heart''))
             (Some (falsy_or_string language ''american_english''))
             (Some (falsy_or_number speed (Fin 1))) w of
        (Inr response, w') \<Rightarrow>
          ((object [(''success'', Some (JBool True)),
                    (''audioBase64'', Some (JStr (toBase64 response))),
                    (''duration'', map_option JNum (duration response)),
                    (''charactersProcessed'', map_option JNum (charactersProcessed response))],
            Some (audioData response)), w')
      | (Inl e, w') \<Rightarrow> ((failure e, None), w'))"


definition LangVoiceAutoGenTools_saveAudio ::
  "LangVoiceAutoGenTools \<Rightarrow> json \<Rightarrow> string option \<Rightarrow> world \<Rightarrow> bool \<times> world"
where
  "LangVoiceAutoGenTools_saveAudio tools result outputPath w =
     (if \<not> (truthy (property result ''success'') \<and> truthy (property result ''audioBase64''))
      then (False, w)
      else
        (case property result ''audioBase64'' of
           Some (JStr b) \<Rightarrow>
             (case writeFileSync (falsy_or_string outputPath (autogen_outputFile tools))
                     (base64_decode b) w of
                Some w' \<Rightarrow> (True, w')
              | None \<Rightarrow> (False, w))
         | _ \<Rightarrow> (False, w)))"

section \<open>Test fixtures (tests/client.test.ts)\<close>

text \<open>
  The mocked \<open>fetch\<close> of the test suite answers every request with one fixed outcome:
  \<open>mock_response\<close> is the successful answer of the test "should generate speech
  successfully" (a body of 100 zero bytes and the two metadata headers, the body
  arriving with the headers), \<open>mock_world\<close> a world whose server gives one outcome after
  a fixed delay, and \<open>test_client\<close> the client built from \<open>{apiKey: 'test-key'}\<close>.
  \<open>mock_ToString\<close> is the conversion to a string on the values the examples convert:
  an array joins the conversions of its elements, \<open>null\<close> among them as the empty
  string; an object gives \<open>[object Object]\<close>, and throws when it has a property
  \<open>toString\<close> of its own, which in a JSON value is no function.
\<close>

definition mock_response :: Response where
  "mock_response =
     \<lparr>status = 200, statusText = ''OK'',
      headers = [''X-Audio-Duration'' \<mapsto> ''2.5s'', ''X-Characters-Processed'' \<mapsto> ''100''],
      json = Inl (SyntaxError ''Unexpected token in JSON''),
      arrayBuffer = replicate 100 0,
      body_time = 0\<rparr>"

definition mock_Number_toString :: "number \<Rightarrow> string" where
  "mock_Number_toString n =
     (if n = Fin 2.5 then ''2.5'' else if n = Fin 100 then ''100'' else ''0'')"

fun comma_joined :: "(error + string) list \<Rightarrow> error + string" where
  "comma_joined [] = Inr []"
| "comma_joined [x] = x"
| "comma_joined (x # y # ys) =
     (case x of
        Inl e \<Rightarrow> Inl e
      | Inr s \<Rightarrow> (case comma_joined (y # ys) of Inl e \<Rightarrow> Inl e | Inr t \<Rightarrow> Inr (s @ '','' @ t)))"

fun mock_ToString :: "json \<Rightarrow> error + string" where
  "mock_ToString JNull = Inr ''null''"
| "mock_ToString (JBool b) = Inr (if b then ''true'' else ''false'')"
| "mock_ToString (JNum n) = Inr (mock_Number_toString n)"
| "mock_ToString (JStr s) = Inr s"
| "mock_ToString (JArr xs) =
     comma_joined (map (\<lambda>x. if x = JNull then Inr [] else mock_ToString x) xs)"
| "mock_ToString (JObj kvs) =
     (if map_of kvs ''toString'' = None then Inr ''[object Object]''
      else Inl (TypeError ''Cannot convert object to primitive value''))"

definition mock_world :: "nat \<Rightarrow> (error + Response) \<Rightarrow> bool \<Rightarrow> world" where
  "mock_world ms outcome can_write =
     \<lparr>server = (\<lambda>rq. (ms, outcome)), sent = [], fs_module = True,
      writable = (\<lambda>p. can_write), files = Map.empty, LANGVOICE_API_KEY = None,
      Number_toString = mock_Number_toString, ToString = mock_ToString\<rparr>"

definition test_client :: client where
  "test_client =
     \<lparr>apiKey = ''test-key'', baseUrl = ''https://www.langvoice.pro/api'', timeout = 60000\<rparr>"

definition error_response :: "nat \<Rightarrow> string \<Rightarrow> error + payload \<Rightarrow> Response" where
  "error_response code line b =
     \<lparr>status = code, statusText = line, headers = Map.empty, json = b, arrayBuffer = [],
      body_time = 0\<rparr>"

text \<open>
  \<open>slow_body\<close> is the successful answer with a body that arrives 70 seconds after the
  headers, and \<open>voices_response\<close> the answer of \<open>/tts/voices\<close> with one voice, its body as
  slow.
\<close>

definition slow_body :: Response where
  "slow_body = mock_response\<lparr>body_time := 70000\<rparr>"

definition voices_response :: Response where
  "voices_response =
     \<lparr>status = 200, statusText = ''OK'', headers = Map.empty,
      json = Inr (VoicesData [VoiceData ''heart'' ''Heart'' (Some ''female'')
                               (Some ''american_english'') None]),
      arrayBuffer = [], body_time = 70000\<rparr>"

definition hello_world :: Args where
  "hello_world =
     \<lparr>arg_text = Some ''Hello world'', arg_voice = None, arg_language = None, arg_speed = None,
      arg_output_file = None\<rparr>"

section \<open>Properties\<close>

subsection \<open>Request construction\<close>

text \<open>
  The speed check of the two constructors rejects exactly the numbers outside the range
  that are not \<open>NaN\<close>: both comparisons with \<open>NaN\<close> are false.
\<close>

lemma speed_check: "(js_less s (Fin 0.5) \<or> js_less (Fin 2) s) = (\<not> speed_in_range s \<and> s \<noteq> NaN)"
  by (cases s) (auto simp: speed_in_range_def)

lemma GenerateRequest_constructor_succeeds_iff:
  "(\<exists>rq. GenerateRequest_constructor txt voice language speed = Inr rq)
     = ((\<exists>t. txt = Some t \<and> 1 \<le> length t \<and> length t \<le> 5000)
        \<and> (speed_in_range (nullish_or speed (Fin 1)) \<or> nullish_or speed (Fin 1) = NaN))"
  unfolding GenerateRequest_constructor_def Let_def speed_check
  by (cases "txt") (auto simp: Suc_le_eq)

lemma MultiVoiceRequest_constructor_succeeds_iff:
  "(\<exists>rq. MultiVoiceRequest_constructor txt language speed = Inr rq)
     = ((\<exists>t. txt = Some t \<and> 1 \<le> length t \<and> length t \<le> 5000)
        \<and> (speed_in_range (nullish_or speed (Fin 1)) \<or> nullish_or speed (Fin 1) = NaN))"
  unfolding MultiVoiceRequest_constructor_def Let_def speed_check
  by (cases "txt") (auto simp: Suc_le_eq)

lemma GenerateRequest_constructor_failure:
  "GenerateRequest_constructor txt voice language speed = Inl e \<Longrightarrow>
     e \<in> {Error ''Text is required'', Error ''Text must be 5000 characters or less'',
          Error ''Speed must be between 0.5 and 2.0''}"
  by (cases "txt") (auto simp: GenerateRequest_constructor_def Let_def split: if_splits)

text \<open>
  C1. The claim: construction of a \<open>GenerateRequest\<close> or \<open>MultiVoiceRequest\<close> succeeds
  exactly when the text has 1 to 5000 characters and the effective speed lies in
  [0.5, 2.0], and fails otherwise. The code at the speed \<open>NaN\<close>: both constructors accept
  the text \<open>Hello\<close> with speed \<open>NaN\<close> and build a request whose speed is \<open>NaN\<close>, a value
  outside [0.5, 2.0].
\<close>

theorem NaN_speed_accepted:
  "GenerateRequest_constructor (Some ''Hello'') None None (Some NaN)
     = Inr (GenerateRequest ''Hello'' ''heart'' ''american_english'' NaN)
   \<and> MultiVoiceRequest_constructor (Some ''Hello'') None (Some NaN)
     = Inr (MultiVoiceRequest ''Hello'' ''american_english'' NaN)"
  by (simp add: GenerateRequest_constructor_def MultiVoiceRequest_constructor_def nullish_or_def
        falsy_or_string_def)

subsection \<open>Errors by status code\<close>

lemma on_catch_AuthenticationError: "on_catch (AuthenticationError m) = AuthenticationError m"
  and on_catch_RateLimitError: "on_catch (RateLimitError m) = RateLimitError m"
  and on_catch_ValidationError: "on_catch (ValidationError m) = ValidationError m"
  and on_catch_APIError: "on_catch (APIError m s) = APIError m s"
  and on_catch_AbortError: "on_catch (AbortError m) = APIError ''Request timeout'' (Some 408)"
  by (simp_all add: on_catch_def)

lemma fetch_in_time:
  "server w rq = (lat, out) \<Longrightarrow> lat \<le> ms \<Longrightarrow> fetch ms rq w = (out, w\<lparr>sent := sent w @ [rq]\<rparr>)"
  by (simp add: fetch_def)

lemma fetch_late:
  "server w rq = (lat, out) \<Longrightarrow> ms < lat \<Longrightarrow>
   fetch ms rq w = (Inl (AbortError ''This operation was aborted''), w\<lparr>sent := sent w @ [rq]\<rparr>)"
  by (simp add: fetch_def)

lemma test_client_constructed:
  "LangVoiceClient_constructor (mock_world ms out cw) (Some ''test-key'') None None = Inr test_client"
  by (simp add: LangVoiceClient_constructor_def falsy_or_string_def test_client_def)

lemma mock_world_simps:
  "server (mock_world ms out cw) rq = (ms, out)"
  "sent (mock_world ms out cw) = []"
  "fs_module (mock_world ms out cw) = True"
  "writable (mock_world ms out cw) p = cw"
  "files (mock_world ms out cw) p = None"
  "LANGVOICE_API_KEY (mock_world ms out cw) = None"
  "Number_toString (mock_world ms out cw) (Fin 2.5) = ''2.5''"
  "Number_toString (mock_world ms out cw) (Fin (5 / 2)) = ''2.5''"
  "Number_toString (mock_world ms out cw) (Fin 100) = ''100''"
  "ToString (mock_world ms out cw) = mock_ToString"
  by (simp_all add: mock_world_def mock_Number_toString_def)

lemma message_string_sent: "message_string (w\<lparr>sent := s\<rparr>) v = message_string w v"
  by (cases v) (simp_all add: message_string_def)

lemma handleResponseErrors_sent:
  "handleResponseErrors (w\<lparr>sent := s\<rparr>) r = handleResponseErrors w r"
  by (simp add: handleResponseErrors_def message_string_sent)

lemma on_catch_status_error: "on_catch (status_error code m) = status_error code m"
  by (simp add: on_catch_def status_error_def)

lemma raised_by_both_paths:
  assumes "handleResponseErrors w r = Inl x" and "on_catch x = x"
  shows "server w (make_request c m ep b) = (lat, Inr r) \<Longrightarrow> lat \<le> timeout c
           \<Longrightarrow> fst (request c m ep b w) = Inl x"
    and "server w (make_request c ''POST'' ep (Some j)) = (lat, Inr r) \<Longrightarrow> lat \<le> timeout c
           \<Longrightarrow> fst (requestBinary c ep j w) = Inl x"
proof -
  show "fst (request c m ep b w) = Inl x"
    if "server w (make_request c m ep b) = (lat, Inr r)" "lat \<le> timeout c"
    using fetch_in_time[OF that] assms
    by (simp add: request_def handleResponseErrors_sent)
  show "fst (requestBinary c ep j w) = Inl x"
    if "server w (make_request c ''POST'' ep (Some j)) = (lat, Inr r)" "lat \<le> timeout c"
    using fetch_in_time[OF that] assms
    by (simp add: requestBinary_def handleResponseErrors_sent)
qed

lemma message_of_error_field:
  assumes "\<not> ok r" and "json r = Inr (ErrorData (Some v))" and "truthy (Some v)"
  shows "handleResponseErrors w r
           = (case message_string w v of
                Inl thrown \<Rightarrow> Inl thrown
              | Inr m \<Rightarrow> Inl (status_error (status r) m))"
  using assms
  by (simp add: handleResponseErrors_def read_body_def error_property_def falsy_or_def Let_def)

lemma message_without_error_field:
  assumes "\<not> ok r" and "json r = Inr d" and "d \<noteq> NullBody"
      and "\<And>v. d = ErrorData (Some v) \<Longrightarrow> \<not> truthy (Some v)"
  shows "handleResponseErrors w r
           = Inl (status_error (status r) (''API error: '' @ decimal_string (status r)))"
proof (cases d)
  case NullBody
  with assms(3) show ?thesis by simp
next
  case (ErrorData e)
  show ?thesis
  proof (cases e)
    case None
    with ErrorData assms(1,2) show ?thesis
      by (simp add: handleResponseErrors_def read_body_def error_property_def falsy_or_def
            message_string_def Let_def)
  next
    case (Some v)
    with ErrorData assms(4) have "\<not> truthy (Some v)" by simp
    with Some ErrorData assms(1,2) show ?thesis
      by (simp add: handleResponseErrors_def read_body_def error_property_def falsy_or_def
            message_string_def Let_def)
  qed
next
  case (VoicesData vs)
  with assms(1,2) show ?thesis
    by (simp add: handleResponseErrors_def read_body_def error_property_def falsy_or_def
          message_string_def Let_def)
next
  case (LanguagesData ls)
  with assms(1,2) show ?thesis
    by (simp add: handleResponseErrors_def read_body_def error_property_def falsy_or_def
          message_string_def Let_def)
qed

lemma message_of_status_text:
  assumes "\<not> ok r" and "json r = Inr NullBody \<or> (\<exists>e. json r = Inl e)"
  shows "handleResponseErrors w r
           = Inl (status_error (status r)
                    (if statusText r = [] then ''API error: '' @ decimal_string (status r)
                     else statusText r))"
  using assms
  by (auto simp: handleResponseErrors_def read_body_def error_property_def falsy_or_string_def
        message_string_def Let_def)

text \<open>
  C2, as amended. For every response whose status is not 2xx, \<open>handleResponseErrors\<close>
  raises an error, and the same error leaves \<open>request\<close> and \<open>requestBinary\<close> on every
  endpoint when the headers arrive within the timeout. Its class is fixed by the status
  code: 401 gives \<open>AuthenticationError\<close>, 429 \<open>RateLimitError\<close>, 400 \<open>ValidationError\<close>,
  every other status an \<open>APIError\<close> carrying that status. Its message is

  \<^item> the \<open>error\<close> field of the body, when the body is JSON other than \<open>null\<close> and that
    field is truthy: the field itself when it is a string, and its conversion to a string
    when it is not; when that conversion throws, what it throws is raised in place of the
    error of the status;

  \<^item> \<open>API error: <status>\<close>, when the body is JSON other than \<open>null\<close> and the field is
    absent or falsy (the empty string, \<open>null\<close>, \<open>false\<close>, 0);

  \<^item> the status text, when the body is not JSON or is \<open>null\<close>, and \<open>API error: <status>\<close>
    when in that case the status text is empty.
\<close>

theorem error_by_status:
  assumes "\<not> ok r"
  shows "let fallback = ''API error: '' @ decimal_string (status r);
             line = (if statusText r = [] then fallback else statusText r);
             err = (\<lambda>msg. if status r = 401 then AuthenticationError msg
                          else if status r = 429 then RateLimitError msg
                          else if status r = 400 then ValidationError msg
                          else APIError msg (Some (status r)));
             raises = (\<lambda>x. handleResponseErrors w r = Inl x
                \<and> (\<forall>c m ep b lat. server w (make_request c m ep b) = (lat, Inr r)
                        \<and> lat \<le> timeout c
                      \<longrightarrow> fst (request c m ep b w) = Inl x)
                \<and> (\<forall>c ep j lat. server w (make_request c ''POST'' ep (Some j)) = (lat, Inr r)
                        \<and> lat \<le> timeout c
                      \<longrightarrow> fst (requestBinary c ep j w) = Inl x))
         in (\<forall>s. json r = Inr (ErrorData (Some (JStr s))) \<and> s \<noteq> [] \<longrightarrow> raises (err s))
          \<and> (\<forall>v s. json r = Inr (ErrorData (Some v)) \<and> truthy (Some v) \<and> (\<forall>t. v \<noteq> JStr t)
                  \<and> ToString w v = Inr s
                \<longrightarrow> raises (err s))
          \<and> (\<forall>v e. json r = Inr (ErrorData (Some v)) \<and> truthy (Some v) \<and> (\<forall>t. v \<noteq> JStr t)
                  \<and> ToString w v = Inl e \<and> name e \<noteq> ''AbortError''
                \<longrightarrow> raises e)
          \<and> (\<forall>d. json r = Inr d \<and> d \<noteq> NullBody
                  \<and> (\<forall>v. d = ErrorData (Some v) \<longrightarrow> \<not> truthy (Some v))
                \<longrightarrow> raises (err fallback))
          \<and> (json r = Inr NullBody \<or> (\<exists>e. json r = Inl e) \<longrightarrow> raises (err line))"
proof -
  define fallback where "fallback = ''API error: '' @ decimal_string (status r)"
  define line where "line = (if statusText r = [] then fallback else statusText r)"
  define raises where "raises = (\<lambda>x. handleResponseErrors w r = Inl x
                \<and> (\<forall>c m ep b lat. server w (make_request c m ep b) = (lat, Inr r)
                        \<and> lat \<le> timeout c
                      \<longrightarrow> fst (request c m ep b w) = Inl x)
                \<and> (\<forall>c ep j lat. server w (make_request c ''POST'' ep (Some j)) = (lat, Inr r)
                        \<and> lat \<le> timeout c
                      \<longrightarrow> fst (requestBinary c ep j w) = Inl x))"
  have err: "(if status r = 401 then AuthenticationError msg
              else if status r = 429 then RateLimitError msg
              else if status r = 400 then ValidationError msg
              else APIError msg (Some (status r))) = status_error (status r) msg" for msg
    by (simp add: status_error_def)
  have raised: "raises x" if "handleResponseErrors w r = Inl x" "on_catch x = x" for x
    unfolding raises_def using raised_by_both_paths[OF that] that(1) by blast
  have 1: "raises (status_error (status r) s)"
    if "json r = Inr (ErrorData (Some (JStr s)))" "s \<noteq> []" for s
  proof -
    have "truthy (Some (JStr s))" using that(2) by (simp add: truthy_def)
    from message_of_error_field[OF assms that(1) this, of w] show ?thesis
      by (intro raised) (simp_all add: message_string_def on_catch_status_error)
  qed
  have 2: "raises (status_error (status r) s)"
    if "json r = Inr (ErrorData (Some v))" "truthy (Some v)" "\<forall>t. v \<noteq> JStr t"
       "ToString w v = Inr s" for v s
  proof -
    have "message_string w v = Inr s"
      using that(3,4) by (cases v) (simp_all add: message_string_def)
    with message_of_error_field[OF assms that(1,2), of w] show ?thesis
      by (intro raised) (simp_all add: on_catch_status_error)
  qed
  have 3: "raises e"
    if "json r = Inr (ErrorData (Some v))" "truthy (Some v)" "\<forall>t. v \<noteq> JStr t"
       "ToString w v = Inl e" "name e \<noteq> ''AbortError''" for v e
  proof -
    have "message_string w v = Inl e"
      using that(3,4) by (cases v) (simp_all add: message_string_def)
    with message_of_error_field[OF assms that(1,2), of w] that(5) show ?thesis
      by (intro raised) (simp_all add: on_catch_def)
  qed
  have 4: "raises (status_error (status r) fallback)"
    if "json r = Inr d" "d \<noteq> NullBody" "\<forall>v. d = ErrorData (Some v) \<longrightarrow> \<not> truthy (Some v)"
    for d
    using message_without_error_field[OF assms that(1,2), of w] that(3)
    by (intro raised) (simp_all add: fallback_def on_catch_status_error)
  have 5: "raises (status_error (status r) line)"
    if "json r = Inr NullBody \<or> (\<exists>e. json r = Inl e)"
    using message_of_status_text[OF assms that, of w]
    by (intro raised) (simp_all add: line_def fallback_def on_catch_status_error)
  show ?thesis
    unfolding Let_def err fallback_def[symmetric] line_def[symmetric] raises_def[symmetric]
    using 1 2 3 4 5 by blast
qed

theorem error_by_status_witness:
  "fst (request test_client ''GET'' ''/tts/voices'' None
         (mock_world 0 (Inr (error_response 401 ''Unauthorized''
            (Inr (ErrorData (Some (JStr ''Invalid API key'')))))) True))
     = Inl (AuthenticationError ''Invalid API key'')
   \<and> fst (requestBinary test_client ''/tts/generate'' JNull
         (mock_world 0 (Inr (error_response 500 ''Internal Server Error''
            (Inr (ErrorData (Some (JObj [(''code'', JNum (Fin 100))])))))) True))
     = Inl (APIError ''[object Object]'' (Some 500))
   \<and> handleResponseErrors (mock_world 0 (Inl (TypeError ''fetch failed'')) True)
        (error_response 400 ''Bad Request'' (Inr (ErrorData (Some (JObj [(''toString'', JNull)])))))
     = Inl (TypeError ''Cannot convert object to primitive value'')
   \<and> handleResponseErrors (mock_world 0 (Inl (TypeError ''fetch failed'')) True)
        (error_response 429 ''Too Many Requests'' (Inr (ErrorData (Some (JBool False)))))
     = Inl (RateLimitError ''API error: 429'')
   \<and> handleResponseErrors (mock_world 0 (Inl (TypeError ''fetch failed'')) True)
        (error_response 503 ''Service Unavailable'' (Inr NullBody))
     = Inl (APIError ''Service Unavailable'' (Some 503))
   \<and> handleResponseErrors (mock_world 0 (Inl (TypeError ''fetch failed'')) True)
        (error_response 502 [] (Inl (SyntaxError ''Unexpected token in JSON'')))
     = Inl (APIError ''API error: 502'' (Some 502))"
proof -
  let ?w = "mock_world 0 (Inl (TypeError ''fetch failed'')) True"
  let ?a = "error_response 401 ''Unauthorized'' (Inr (ErrorData (Some (JStr ''Invalid API key''))))"
  let ?b = "error_response 500 ''Internal Server Error''
              (Inr (ErrorData (Some (JObj [(''code'', JNum (Fin 100))]))))"
  let ?c = "error_response 400 ''Bad Request'' (Inr (ErrorData (Some (JObj [(''toString'', JNull)]))))"
  let ?d = "error_response 429 ''Too Many Requests'' (Inr (ErrorData (Some (JBool False))))"
  let ?e = "error_response 503 ''Service Unavailable'' (Inr NullBody)"
  let ?f = "error_response 502 [] (Inl (SyntaxError ''Unexpected token in JSON''))"
  have n: "\<not> ok (error_response code line b)" if "300 \<le> code" for code line b
    using that by (simp add: ok_def error_response_def)
  have sel: "json (error_response code line b) = b" "status (error_response code line b) = code"
    "statusText (error_response code line b) = line" for code line b
    by (simp_all add: error_response_def)
  have dec: "decimal_string 429 = ''429''" "decimal_string 502 = ''502''"
    by (simp_all add: decimal_string.simps)
  have a: "fst (request test_client ''GET'' ''/tts/voices'' None (mock_world 0 (Inr ?a) True))
             = Inl (AuthenticationError ''Invalid API key'')"
    using error_by_status[OF n[of 401], of "''Unauthorized''"
        "Inr (ErrorData (Some (JStr ''Invalid API key'')))" "mock_world 0 (Inr ?a) True"]
    by (simp add: Let_def sel mock_world_simps test_client_def)
  have b: "fst (requestBinary test_client ''/tts/generate'' JNull (mock_world 0 (Inr ?b) True))
             = Inl (APIError ''[object Object]'' (Some 500))"
    using error_by_status[OF n[of 500], of "''Internal Server Error''"
        "Inr (ErrorData (Some (JObj [(''code'', JNum (Fin 100))])))" "mock_world 0 (Inr ?b) True"]
    by (simp add: Let_def sel mock_world_simps test_client_def truthy_def)
  have c: "handleResponseErrors ?w ?c = Inl (TypeError ''Cannot convert object to primitive value'')"
    using error_by_status[OF n[of 400], of "''Bad Request''"
        "Inr (ErrorData (Some (JObj [(''toString'', JNull)])))" ?w]
    by (simp add: Let_def sel mock_world_simps truthy_def)
  have d: "handleResponseErrors ?w ?d = Inl (RateLimitError ''API error: 429'')"
    using error_by_status[OF n[of 429], of "''Too Many Requests''"
        "Inr (ErrorData (Some (JBool False)))" ?w]
    by (simp add: Let_def sel truthy_def dec)
  have e: "handleResponseErrors ?w ?e = Inl (APIError ''Service Unavailable'' (Some 503))"
    using error_by_status[OF n[of 503], of "''Service Unavailable''" "Inr NullBody" ?w]
    by (simp add: Let_def sel)
  have f: "handleResponseErrors ?w ?f = Inl (APIError ''API error: 502'' (Some 502))"
    using error_by_status[OF n[of 502], of "[]" "Inl (SyntaxError ''Unexpected token in JSON'')" ?w]
    by (simp add: Let_def sel dec)
  from a b c d e f show ?thesis by simp
qed

text \<open>
  The claim as stated gives the status line as the message whenever the body has no
  \<open>error\<close> field. A 500 answer with the status text \<open>Internal Server Error\<close> and the
  JSON body \<open>{}\<close> raises the message \<open>API error: 500\<close>; so does the body \<open>{error: ""}\<close>,
  whose field is present.
\<close>

theorem status_line_counterexample:
  "handleResponseErrors (mock_world 0 (Inl (TypeError ''fetch failed'')) True)
       (error_response 500 ''Internal Server Error'' (Inr (ErrorData None)))
     = Inl (APIError ''API error: 500'' (Some 500))
   \<and> statusText (error_response 500 ''Internal Server Error'' (Inr (ErrorData None)))
     = ''Internal Server Error''
   \<and> handleResponseErrors (mock_world 0 (Inl (TypeError ''fetch failed'')) True)
        (error_response 500 ''Internal Server Error'' (Inr (ErrorData (Some (JStr [])))))
     = Inl (APIError ''API error: 500'' (Some 500))"
  by (simp add: handleResponseErrors_def ok_def error_response_def error_property_def
        read_body_def falsy_or_def truthy_def message_string_def status_error_def
        decimal_string.simps)

subsection \<open>Response metadata and the base64 view\<close>

lemma length_alphabet: "length alphabet = 64"
  by (simp add: alphabet_def)

lemma pad_notin_alphabet: "CHR ''='' \<notin> set alphabet"
  by (simp add: alphabet_def)

lemma distinct_alphabet: "distinct alphabet"
  unfolding alphabet_def by code_simp

lemma index_of_nth: "distinct xs \<Longrightarrow> i < length xs \<Longrightarrow> index_of xs (xs ! i) = i"
proof (induction xs arbitrary: i)
  case Nil
  then show ?case by simp
next
  case (Cons y ys)
  show ?case
  proof (cases i)
    case 0
    then show ?thesis by simp
  next
    case (Suc j)
    with Cons.prems have "j < length ys" "ys ! j \<in> set ys" "y \<notin> set ys" "distinct ys"
      by auto
    with Suc Cons.IH[of j] show ?thesis by auto
  qed
qed

lemma byte_bound: "unat (a :: 8 word) < 256"
  using unsigned_less[of a] by simp

lemma sextets_bound: "\<forall>i \<in> set (sextets bs). i < 64"
proof (induction bs rule: sextets.induct)
  case 1
  then show ?case by simp
next
  case (2 a)
  show ?case using byte_bound[of a] by auto
next
  case (3 a b)
  show ?case using byte_bound[of a] byte_bound[of b] by auto
next
  case (4 a b c rest)
  then show ?case using byte_bound[of a] byte_bound[of b] byte_bound[of c] by auto
qed

lemma pack1: "(a::nat) div 4 * 4 + a mod 4 * 16 div 16 = a"
  by simp

lemma pack2: "(b::nat) < 256 \<Longrightarrow> a div 4 * 4 + (a mod 4 * 16 + b div 16) div 16 = a"
  by simp

lemma pack3: "(b::nat) < 256 \<Longrightarrow> (a mod 4 * 16 + b div 16) mod 16 * 16 + b mod 16 * 4 div 4 = b"
  by simp

lemma pack4: "(b::nat) < 256 \<Longrightarrow> c < 256 \<Longrightarrow>
   (a mod 4 * 16 + b div 16) mod 16 * 16 + (b mod 16 * 4 + c div 64) div 4 = b"
  by simp

lemma pack5: "(c::nat) < 256 \<Longrightarrow> (b mod 16 * 4 + c div 64) mod 4 * 64 + c mod 64 = c"
  by simp

lemma octets_sextets: "octets (sextets bs) = bs"
proof (induction bs rule: sextets.induct)
  case 1
  then show ?case by simp
next
  case (2 a)
  show ?case by (simp add: pack1)
next
  case (3 a b)
  show ?case using byte_bound[of b] by (simp add: pack2 pack3)
next
  case (4 a b c rest)
  then show ?case using byte_bound[of b] byte_bound[of c] by (simp add: pack2 pack4 pack5)
qed

lemma digits_roundtrip:
  "\<forall>i \<in> set xs. i < 64 \<Longrightarrow> map (index_of alphabet) (map (\<lambda>i. alphabet ! i) xs) = xs"
  by (induction xs) (simp_all add: index_of_nth distinct_alphabet length_alphabet)

lemma digits_in_alphabet:
  "\<forall>i \<in> set xs. i < 64 \<Longrightarrow> set (map (\<lambda>i. alphabet ! i) xs) \<subseteq> set alphabet"
  by (auto simp: length_alphabet)

lemma takeWhile_padding:
  "\<forall>c \<in> set ds. c \<noteq> CHR ''='' \<Longrightarrow>
   takeWhile (\<lambda>c. c \<noteq> CHR ''='') (ds @ replicate k (CHR ''='')) = ds"
proof (induction ds)
  case Nil
  show ?case by (cases k) simp_all
next
  case (Cons d ds)
  then show ?case by simp
qed

lemma base64_roundtrip: "base64_decode (base64_encode bs) = bs"
proof -
  let ?ds = "map (\<lambda>i. alphabet ! i) (sextets bs)"
  have b: "\<forall>i \<in> set (sextets bs). i < 64" by (rule sextets_bound)
  have sub: "set ?ds \<subseteq> set alphabet" using digits_in_alphabet[OF b] .
  have nopad: "\<forall>c \<in> set ?ds. c \<noteq> CHR ''=''" using sub pad_notin_alphabet by auto
  have tw: "takeWhile (\<lambda>c. c \<noteq> CHR ''='') (base64_encode bs) = ?ds"
    unfolding base64_encode_def padding_def by (rule takeWhile_padding[OF nopad])
  have fl: "filter (\<lambda>c. c \<in> set alphabet) ?ds = ?ds" using sub by (auto simp: filter_id_conv)
  show ?thesis
    unfolding base64_decode_def tw fl using digits_roundtrip[OF b] octets_sextets by simp
qed

lemma parse_duration_header: "parseFloatHeader (Some ''2.5s'') = Some (Fin 2.5)"
  by (simp add: parseFloatHeader_def parseFloat_def sign_of_def is_space_def is_digit_def
        decimal_def exponent_of_def scale_def isNaN_def)

lemma parse_characters_header: "parseIntHeader (Some ''100'') = Some (Fin 100)"
  by (simp add: parseIntHeader_def parseInt10_def sign_of_def is_space_def is_digit_def
        decimal_def isNaN_def)

lemma requestBinary_ok:
  assumes "server w (make_request c ''POST'' ep (Some j)) = (lat, Inr r)" "lat \<le> timeout c" "ok r"
  shows "requestBinary c ep j w
           = (Inr (arrayBuffer r, headers r),
              w\<lparr>sent := sent w @ [make_request c ''POST'' ep (Some j)]\<rparr>)"
  using fetch_in_time[OF assms(1,2)] assms(3)
  by (simp add: requestBinary_def handleResponseErrors_def read_body_def)

text \<open>
  C3. For every successful binary response whose headers carry the duration \<open>2.5s\<close> and
  the characters-processed count \<open>100\<close>, \<open>generate\<close> (on a request that passes validation,
  answered within the timeout) returns a response with duration 2.5 and
  charactersProcessed 100 over the bytes of the body; and for every byte buffer \<open>x\<close>,
  decoding \<open>toBase64()\<close> of a response built over \<open>x\<close> gives \<open>x\<close> back.
\<close>

theorem generate_metadata_and_base64:
  assumes "GenerateRequest_constructor txt voice language speed = Inr rq"
      and "server w (make_request c ''POST'' ''/tts/generate'' (Some (GenerateRequest_toJSON rq)))
             = (lat, Inr r)"
      and "lat \<le> timeout c" and "ok r"
      and "headers r ''X-Audio-Duration'' = Some ''2.5s''"
      and "headers r ''X-Characters-Processed'' = Some ''100''"
  shows "(\<exists>resp. fst (generate c txt voice language speed w) = Inr resp
            \<and> duration resp = Some (Fin 2.5)
            \<and> charactersProcessed resp = Some (Fin 100)
            \<and> audioData resp = arrayBuffer r
            \<and> base64_decode (toBase64 resp) = arrayBuffer r)
         \<and> (\<forall>x d g n. base64_decode (toBase64 (GenerateResponse_constructor x d g n)) = x)"
proof -
  have rt: "base64_decode (toBase64 (GenerateResponse_constructor x d g n)) = x" for x d g n
    by (simp add: toBase64_def GenerateResponse_constructor_def base64_roundtrip)
  have g: "fst (generate c txt voice language speed w)
             = Inr (GenerateResponse_constructor (arrayBuffer r) (Some (Fin 2.5))
                      (parseFloatHeader (headers r ''X-Generation-Time'')) (Some (Fin 100)))"
    using assms(1) requestBinary_ok[OF assms(2,3,4)] assms(5,6)
    by (simp add: generate_def binary_response_def parse_duration_header parse_characters_header)
  show ?thesis
    using g rt by (simp add: GenerateResponse_constructor_def toBase64_def base64_roundtrip)
qed

lemma mock_request_valid:
  "GenerateRequest_constructor (Some ''Hello world'') (Some ''heart'') None None
     = Inr (GenerateRequest ''Hello world'' ''heart'' ''american_english'' (Fin 1))"
  by (simp add: GenerateRequest_constructor_def nullish_or_def falsy_or_string_def)

theorem generate_metadata_and_base64_witness:
  "\<exists>resp. fst (generate test_client (Some ''Hello world'') (Some ''heart'') None None
                 (mock_world 0 (Inr mock_response) True)) = Inr resp
      \<and> duration resp = Some (Fin 2.5)
      \<and> charactersProcessed resp = Some (Fin 100)
      \<and> audioData resp = replicate 100 0
      \<and> base64_decode (toBase64 resp) = replicate 100 0"
proof -
  have s: "server (mock_world 0 (Inr mock_response) True) rq = (0, Inr mock_response)" for rq
    by (simp add: mock_world_def)
  have t: "(0::nat) \<le> timeout test_client" by simp
  have k: "ok mock_response" by (simp add: ok_def mock_response_def)
  have d: "headers mock_response ''X-Audio-Duration'' = Some ''2.5s''"
    by (simp add: mock_response_def)
  have n: "headers mock_response ''X-Characters-Processed'' = Some ''100''"
    by (simp add: mock_response_def)
  have a: "arrayBuffer mock_response = replicate 100 0" by (simp add: mock_response_def)
  from generate_metadata_and_base64[OF mock_request_valid s t k d n] a show ?thesis
    by simp
qed

subsection \<open>Timeout\<close>

lemma default_timeout:
  "LangVoiceClient_constructor w key base None = Inr c \<Longrightarrow> timeout c = 60000"
  by (auto simp: LangVoiceClient_constructor_def Let_def split: if_splits)

text \<open>
  While the headers are awaited the timer runs: when they take longer than the client's
  timeout, \<open>request\<close> and \<open>requestBinary\<close> raise \<open>APIError('Request timeout', 408)\<close>,
  whatever the server would have answered, and a network failure that arrives within the
  timeout is raised as it is.
\<close>

lemma timeout_before_headers:
  assumes "server w (make_request c m ep b) = (lat, out)"
      and "server w (make_request c ''POST'' ep' (Some j)) = (lat', out')"
  shows "timeout c < lat \<Longrightarrow> fst (request c m ep b w) = Inl (APIError ''Request timeout'' (Some 408))"
    and "timeout c < lat' \<Longrightarrow>
           fst (requestBinary c ep' j w) = Inl (APIError ''Request timeout'' (Some 408))"
    and "lat \<le> timeout c \<Longrightarrow> out = Inl e \<Longrightarrow> name e \<noteq> ''AbortError''
           \<Longrightarrow> fst (request c m ep b w) = Inl e"
    and "lat' \<le> timeout c \<Longrightarrow> out' = Inl e \<Longrightarrow> name e \<noteq> ''AbortError''
           \<Longrightarrow> fst (requestBinary c ep' j w) = Inl e"
proof -
  show "fst (request c m ep b w) = Inl (APIError ''Request timeout'' (Some 408))"
    if "timeout c < lat"
    using fetch_late[OF assms(1) that] by (simp add: request_def on_catch_def)
  show "fst (requestBinary c ep' j w) = Inl (APIError ''Request timeout'' (Some 408))"
    if "timeout c < lat'"
    using fetch_late[OF assms(2) that] by (simp add: requestBinary_def on_catch_def)
  show "fst (request c m ep b w) = Inl e"
    if "lat \<le> timeout c" "out = Inl e" "name e \<noteq> ''AbortError''"
    using fetch_in_time[OF assms(1) that(1)] that(2,3) by (simp add: request_def on_catch_def)
  show "fst (requestBinary c ep' j w) = Inl e"
    if "lat' \<le> timeout c" "out' = Inl e" "name e \<noteq> ''AbortError''"
    using fetch_in_time[OF assms(2) that(1)] that(2,3) by (simp add: requestBinary_def on_catch_def)
qed

lemma request_ok:
  assumes "server w (make_request c m ep b) = (lat, Inr r)" "lat \<le> timeout c" "ok r"
  shows "request c m ep b w
           = (case json r of
                Inl e \<Rightarrow> (Inl (on_catch e), w\<lparr>sent := sent w @ [make_request c m ep b]\<rparr>)
              | Inr d \<Rightarrow> (Inr (d, headers r), w\<lparr>sent := sent w @ [make_request c m ep b]\<rparr>))"
  using fetch_in_time[OF assms(1,2)] assms(3)
  by (simp add: request_def handleResponseErrors_def read_body_def)

text \<open>
  C7. The claim: a network request that exceeds the configured timeout (default 60000 ms)
  raises \<open>APIError('Request timeout')\<close>, on the JSON and on the binary path. The code, on
  the client built from \<open>{apiKey: 'test-key'}\<close>, whose timeout is the default 60000 ms,
  and a server whose headers arrive after 10 ms and whose body arrives 70000 ms after
  them: the request lasts 70010 ms, yet \<open>generate\<close> (the binary path) returns the audio
  and \<open>listVoices\<close> (the JSON path) the voices, and no error is raised. The timer is
  cleared when the headers arrive; had it still been running, it would have aborted the
  read of the body.
\<close>

theorem slow_body_not_timed_out:
  "LangVoiceClient_constructor (mock_world 10 (Inr slow_body) True) (Some ''test-key'') None None
     = Inr test_client
   \<and> timeout test_client = 60000
   \<and> server (mock_world 10 (Inr slow_body) True)
       (make_request test_client ''POST'' ''/tts/generate''
          (Some (JObj [(''text'', JStr ''Hello world''), (''voice'', JStr ''heart''),
                       (''language'', JStr ''american_english''), (''speed'', JNum (Fin 1))])))
     = (10, Inr slow_body)
   \<and> timeout test_client < 10 + body_time slow_body
   \<and> fst (generate test_client (Some ''Hello world'') None None None
            (mock_world 10 (Inr slow_body) True))
     = Inr \<lparr>audioData = replicate 100 0, duration = Some (Fin 2.5), generationTime = None,
            charactersProcessed = Some (Fin 100)\<rparr>
   \<and> server (mock_world 10 (Inr voices_response) True)
       (make_request test_client ''GET'' ''/tts/voices'' None)
     = (10, Inr voices_response)
   \<and> timeout test_client < 10 + body_time voices_response
   \<and> fst (listVoices test_client (mock_world 10 (Inr voices_response) True))
     = Inr [VoiceData ''heart'' ''Heart'' (Some ''female'') (Some ''american_english'') None]
   \<and> read_body (Some (timeout test_client - 10)) slow_body (Inr (arrayBuffer slow_body))
     = Inl (AbortError ''This operation was aborted'')
   \<and> read_body (Some (timeout test_client - 10)) voices_response (json voices_response)
     = Inl (AbortError ''This operation was aborted'')"
proof -
  let ?w = "mock_world 10 (Inr slow_body) True"
  let ?v = "mock_world 10 (Inr voices_response) True"
  have t: "timeout test_client = 60000" by (simp add: test_client_def)
  have s: "server ?w rq = (10, Inr slow_body)" "server ?v rq = (10, Inr voices_response)" for rq
    by (simp_all add: mock_world_simps)
  have k: "ok slow_body" "ok voices_response"
    by (simp_all add: ok_def slow_body_def mock_response_def voices_response_def)
  have h: "headers slow_body ''X-Audio-Duration'' = Some ''2.5s''"
          "headers slow_body ''X-Characters-Processed'' = Some ''100''"
          "headers slow_body ''X-Generation-Time'' = None"
          "arrayBuffer slow_body = replicate 100 0"
          "body_time slow_body = 70000" "body_time voices_response = 70000"
          "json voices_response
             = Inr (VoicesData [VoiceData ''heart'' ''Heart'' (Some ''female'')
                                  (Some ''american_english'') None])"
    by (simp_all add: slow_body_def mock_response_def voices_response_def)
  have v: "GenerateRequest_constructor (Some ''Hello world'') None None None
           = Inr (GenerateRequest ''Hello world'' ''heart'' ''american_english'' (Fin 1))"
    by (simp add: GenerateRequest_constructor_def nullish_or_def falsy_or_string_def)
  have p: "parseFloatHeader None = None" by (simp add: parseFloatHeader_def)
  have g: "fst (generate test_client (Some ''Hello world'') None None None ?w)
     = Inr \<lparr>audioData = replicate 100 0, duration = Some (Fin 2.5), generationTime = None,
            charactersProcessed = Some (Fin 100)\<rparr>"
    using requestBinary_ok[OF s(1) _ k(1), of test_client "''/tts/generate''"]
    by (simp add: generate_def v binary_response_def h p t parse_duration_header
          parse_characters_header GenerateResponse_constructor_def)
  have l: "fst (listVoices test_client ?v)
     = Inr [VoiceData ''heart'' ''Heart'' (Some ''female'') (Some ''american_english'') None]"
    using request_ok[OF s(2) _ k(2), of test_client "''GET''" "''/tts/voices''" None]
    by (simp add: listVoices_def h t)
  show ?thesis
    using g l by (simp add: test_client_constructed mock_world_simps t h read_body_def)
qed

subsection \<open>Voice cloning\<close>

text \<open>
  C5. A \<open>VoiceCloningRequest\<close> (modelled from the spec) is built exactly when the text has
  1 to 5000 characters and the effective speed lies in [0.5, 2.0]; for a text of length 0
  or more than 5000, or a speed outside the range, construction fails; whenever it fails,
  \<open>generateCloned\<close> returns that failure with the world unchanged, so before any network
  call; whenever \<open>GenerateRequest\<close> rejects a text and speed, \<open>VoiceCloningRequest\<close>
  rejects them with the same error; a request that is built holds the text, the sample
  and the speed, has no \<open>language\<close> and no \<open>voice\<close> field, and is what \<open>generateCloned\<close>
  posts to \<open>/tts/generate-cloned\<close>.
\<close>

theorem VoiceCloningRequest_invariants:
  "((\<exists>rq. VoiceCloningRequest_constructor txt sample speed = Inr rq)
      = ((\<exists>t. txt = Some t \<and> 1 \<le> length t \<and> length t \<le> 5000)
         \<and> speed_in_range (nullish_or speed (Fin 1))))
   \<and> (\<forall>t. txt = Some t
          \<and> (length t = 0 \<or> 5000 < length t \<or> (speed_in_range (nullish_or speed (Fin 1)) = False))
        \<longrightarrow> (\<exists>e. VoiceCloningRequest_constructor txt sample speed = Inl e))
   \<and> (\<forall>e. VoiceCloningRequest_constructor txt sample speed = Inl e
        \<longrightarrow> generateCloned c txt sample speed w = (Inl e, w))
   \<and> (\<forall>e voice language. GenerateRequest_constructor txt voice language speed = Inl e
        \<longrightarrow> VoiceCloningRequest_constructor txt sample speed = Inl e)
   \<and> (\<forall>rq. VoiceCloningRequest_constructor txt sample speed = Inr rq
        \<longrightarrow> (\<exists>t. txt = Some t
               \<and> VoiceCloningRequest_toJSON rq
                   = JObj [(''text'', JStr t), (''voice_sample_base64'', JStr sample),
                           (''speed'', JNum (nullish_or speed (Fin 1)))])
            \<and> property (VoiceCloningRequest_toJSON rq) ''language'' = None
            \<and> property (VoiceCloningRequest_toJSON rq) ''voice'' = None
            \<and> generateCloned c txt sample speed w
                 = binary_response (requestBinary c ''/tts/generate-cloned''
                                      (VoiceCloningRequest_toJSON rq) w))"
proof -
  have 1: "(\<exists>rq. VoiceCloningRequest_constructor txt sample speed = Inr rq)
      = ((\<exists>t. txt = Some t \<and> 1 \<le> length t \<and> length t \<le> 5000)
         \<and> speed_in_range (nullish_or speed (Fin 1)))"
    by (cases "txt") (auto simp: VoiceCloningRequest_constructor_def Suc_le_eq)
  have 2: "\<exists>e. VoiceCloningRequest_constructor txt sample speed = Inl e"
    if "txt = Some t"
       "length t = 0 \<or> 5000 < length t \<or> (speed_in_range (nullish_or speed (Fin 1)) = False)"
    for t
    using that by (auto simp: VoiceCloningRequest_constructor_def)
  have gc: "generateCloned c txt sample speed w = (Inl e, w)"
    if "VoiceCloningRequest_constructor txt sample speed = Inl e" for e
    using that by (simp add: generateCloned_def)
  have 3: "VoiceCloningRequest_constructor txt sample speed = Inl e"
    if "GenerateRequest_constructor txt voice language speed = Inl e" for e voice language
    using that unfolding GenerateRequest_constructor_def Let_def speed_check
    by (cases "txt") (auto simp: VoiceCloningRequest_constructor_def split: if_splits)
  have 4: "(\<exists>t. txt = Some t
               \<and> VoiceCloningRequest_toJSON rq
                   = JObj [(''text'', JStr t), (''voice_sample_base64'', JStr sample),
                           (''speed'', JNum (nullish_or speed (Fin 1)))])
            \<and> property (VoiceCloningRequest_toJSON rq) ''language'' = None
            \<and> property (VoiceCloningRequest_toJSON rq) ''voice'' = None
            \<and> generateCloned c txt sample speed w
                 = binary_response (requestBinary c ''/tts/generate-cloned''
                                      (VoiceCloningRequest_toJSON rq) w)"
    if "VoiceCloningRequest_constructor txt sample speed = Inr rq" for rq
    using that
    by (cases "txt")
       (auto simp: VoiceCloningRequest_constructor_def generateCloned_def split: if_splits)
  show ?thesis using 1 2 gc 3 4 by blast
qed

theorem VoiceCloningRequest_invariants_witness:
  "VoiceCloningRequest_constructor (Some []) ''UklGRg=='' None = Inl (Error ''Text is required'')
   \<and> fst (generateCloned test_client (Some []) ''UklGRg=='' None
            (mock_world 0 (Inr mock_response) True)) = Inl (Error ''Text is required'')
   \<and> sent (snd (generateCloned test_client (Some []) ''UklGRg=='' None
            (mock_world 0 (Inr mock_response) True))) = []
   \<and> fst (generateCloned test_client (Some ''Hello'') ''UklGRg=='' (Some (Fin 3))
            (mock_world 0 (Inr mock_response) True))
       = Inl (Error ''Speed must be between 0.5 and 2.0'')
   \<and> sent (snd (generateCloned test_client (Some ''Hello'') ''UklGRg=='' (Some (Fin 3))
            (mock_world 0 (Inr mock_response) True))) = []
   \<and> VoiceCloningRequest_constructor (Some ''Hello'') ''UklGRg=='' None
       = Inr (VoiceCloningRequest ''Hello'' ''UklGRg=='' (Fin 1))"
proof -
  let ?w = "mock_world 0 (Inr mock_response) True"
  have e: "sent ?w = []" by (simp add: mock_world_def)
  have a: "VoiceCloningRequest_constructor (Some []) ''UklGRg=='' None
             = Inl (Error ''Text is required'')"
    by (simp add: VoiceCloningRequest_constructor_def)
  have b: "VoiceCloningRequest_constructor (Some ''Hello'') ''UklGRg=='' (Some (Fin 3))
             = Inl (Error ''Speed must be between 0.5 and 2.0'')"
    by (simp add: VoiceCloningRequest_constructor_def speed_in_range_def nullish_or_def)
  have c: "VoiceCloningRequest_constructor (Some ''Hello'') ''UklGRg=='' None
       = Inr (VoiceCloningRequest ''Hello'' ''UklGRg=='' (Fin 1))"
    by (simp add: VoiceCloningRequest_constructor_def speed_in_range_def nullish_or_def)
  from VoiceCloningRequest_invariants[of "Some []" "''UklGRg==''" None test_client ?w]
       VoiceCloningRequest_invariants[of "Some ''Hello''" "''UklGRg==''" "Some (Fin 3)" test_client ?w]
       a b c e
  show ?thesis by (simp add: speed_in_range_def nullish_or_def)
qed

subsection \<open>Adapters: default resolution\<close>

lemma falsy_defaults:
  "falsy_or_number (Some (Fin 0)) d = d"
  "falsy_or_number None d = d"
  "falsy_or_number (Some (Fin 1)) d = Fin 1"
  "falsy_or_string None s = s"
  by (simp_all add: falsy_or_number_def falsy_or_string_def)

lemma mock_generate:
  "generate test_client (Some ''Hello world'') (Some ''heart'') (Some ''american_english'')
     (Some (Fin 1)) (mock_world 0 (Inr mock_response) cw)
   = (Inr \<lparr>audioData = replicate 100 0, duration = Some (Fin 2.5), generationTime = None,
           charactersProcessed = Some (Fin 100)\<rparr>,
      (mock_world 0 (Inr mock_response) cw)
        \<lparr>sent := [make_request test_client ''POST'' ''/tts/generate''
           (Some (JObj [(''text'', JStr ''Hello world''), (''voice'', JStr ''heart''),
                        (''language'', JStr ''american_english''), (''speed'', JNum (Fin 1))]))]\<rparr>)"
proof -
  let ?w = "mock_world 0 (Inr mock_response) cw"
  have v: "GenerateRequest_constructor (Some ''Hello world'') (Some ''heart'')
             (Some ''american_english'') (Some (Fin 1))
           = Inr (GenerateRequest ''Hello world'' ''heart'' ''american_english'' (Fin 1))"
    by (simp add: GenerateRequest_constructor_def nullish_or_def falsy_or_string_def)
  have s: "server ?w rq = (0, Inr mock_response)" for rq
    by (simp add: mock_world_def)
  have k: "ok mock_response" by (simp add: ok_def mock_response_def)
  have e: "sent ?w = []" by (simp add: mock_world_def)
  have h: "headers mock_response ''X-Audio-Duration'' = Some ''2.5s''"
          "headers mock_response ''X-Characters-Processed'' = Some ''100''"
          "headers mock_response ''X-Generation-Time'' = None"
          "arrayBuffer mock_response = replicate 100 0"
    by (simp_all add: mock_response_def)
  have p: "parseFloatHeader None = None" by (simp add: parseFloatHeader_def)
  show ?thesis
    using requestBinary_ok[OF s _ k, of test_client "''/tts/generate''"]
    by (simp add: generate_def v binary_response_def h p e parse_duration_header
          parse_characters_header GenerateResponse_constructor_def)
qed

lemma map_of_map_filter_absent:
  "k \<notin> fst ` set kvs \<Longrightarrow>
   map_of (List.map_filter (\<lambda>(k, v). map_option (Pair k) v) kvs) k = None"
  by (induction kvs) (auto simp: List.map_filter_simps split: option.splits)

lemma map_of_map_filter:
  "distinct (map fst kvs) \<Longrightarrow>
   map_of (List.map_filter (\<lambda>(k, v). map_option (Pair k) v) kvs) k
     = Option.bind (map_of kvs k) id"
  by (induction kvs)
     (auto simp: List.map_filter_simps map_of_map_filter_absent split: option.splits)

lemma property_object:
  "distinct (map fst kvs) \<Longrightarrow> property (object kvs) k = Option.bind (map_of kvs k) id"
  by (simp add: object_def map_of_map_filter)

lemma map_of_stringify:
  "map_of (map (\<lambda>(k, v). (k, stringify_value v)) kvs) k = map_option stringify_value (map_of kvs k)"
  by (induction kvs) auto

lemma property_stringify_object:
  "distinct (map fst kvs) \<Longrightarrow>
   property (stringify_value (object kvs)) k
     = map_option stringify_value (Option.bind (map_of kvs k) id)"
  by (simp add: object_def map_of_stringify map_of_map_filter)

text \<open>
  The adapters built from one key hold the client built from that key, the default output
  file \<open>output.mp3\<close> and, for AutoGen, \<open>autoSave\<close>; \<open>getAudioBuffer\<close> decodes the
  \<open>audioBase64\<close> of a successful result back to the audio, when there is any.
\<close>

lemma adapter_constructors:
  assumes "LangVoiceClient_constructor w key None None = Inr c"
  shows "LangVoiceToolkit_constructor w key = Inr c"
    and "LangVoiceTTSTool_constructor w key None
           = Inr \<lparr>tool_client = c, outputFile = Some ''output.mp3''\<rparr>"
    and "LangVoiceAutoGenTools_constructor w key None None
           = Inr \<lparr>autogen_client = c, autogen_outputFile = ''output.mp3'', autoSave = True\<rparr>"
    and "LangVoiceClient_constructor w (Some (apiKey c)) None None = Inr c"
  using assms
  by (auto simp: LangVoiceToolkit_constructor_def LangVoiceTTSTool_constructor_def
        LangVoiceAutoGenTools_constructor_def falsy_or_string_def nullish_or_def
        LangVoiceClient_constructor_def Let_def split: if_splits option.splits)

lemma sextets_not_empty: "bs \<noteq> [] \<Longrightarrow> sextets bs \<noteq> []"
  by (induction bs rule: sextets.induct) simp_all

lemma base64_encode_not_empty: "bs \<noteq> [] \<Longrightarrow> base64_encode bs \<noteq> []"
  using sextets_not_empty[of bs] by (simp add: base64_encode_def)

lemma getAudioBuffer_decodes:
  assumes "property j ''success'' = Some (JBool True)"
      and "property j ''audioBase64'' = Some (JStr (base64_encode bs))"
      and "bs \<noteq> []"
  shows "LangVoiceToolkit_getAudioBuffer j = Some bs"
    and "LangVoiceOpenAITools_getAudioBuffer j = Some bs"
  using assms base64_encode_not_empty[of bs]
  by (simp_all add: LangVoiceToolkit_getAudioBuffer_def LangVoiceOpenAITools_getAudioBuffer_def
        truthy_def base64_roundtrip)

text \<open>
  C6. Let a direct \<open>client.generate\<close> with text \<open>Hello world\<close>, voice \<open>heart\<close>, language
  \<open>american_english\<close> and speed 1.0 succeed with the response \<open>resp\<close>. Then each adapter,
  given exactly \<open>{text: "Hello world"}\<close>, sends the same request (the log of requests is
  that of the direct call), reports success, and exposes the bytes of \<open>resp\<close>: the generic
  toolkit, the OpenAI handler and AutoGen's direct method in \<open>audioBase64\<close>, which decodes
  to the audio of \<open>resp\<close>; the LangChain tool and AutoGen's call handler in the file they
  write, or, when the file cannot be written, in the first 100 characters of the same
  base64 text.
\<close>

theorem adapters_resolve_defaults:
  assumes direct:
    "generate c (Some ''Hello world'') (Some ''heart'') (Some ''american_english'') (Some (Fin 1)) w
       = (Inr resp, w')"
  shows
    "LangVoiceToolkit_handleToolCall c TOOL_TTS hello_world w
       = LangVoiceToolkit_textToSpeech c (Some ''Hello world'') None None None w
     \<and> (\<exists>j. LangVoiceToolkit_textToSpeech c (Some ''Hello world'') None None None w = (j, w')
            \<and> property j ''success'' = Some (JBool True)
            \<and> property j ''audioBase64'' = Some (JStr (toBase64 resp)))
     \<and> (\<forall>k. LangVoiceClient_constructor w k None None = Inr c \<longrightarrow>
           (\<exists>j. handleOpenAIToolCall TOOL_TTS hello_world k w = (Inr (Text j), w')
              \<and> LangVoiceOpenAITools_handleCall c TOOL_TTS (Encodes hello_world) w = (Inr j, w')
              \<and> property j ''success'' = Some (JBool True)
              \<and> property j ''audioBase64'' = Some (JStr (toBase64 resp))))
     \<and> LangVoiceTTSTool_call \<lparr>tool_client = c, outputFile = Some ''output.mp3''\<rparr>
           (InputString ''Hello world'') w
         = LangVoiceTTSTool_call \<lparr>tool_client = c, outputFile = Some ''output.mp3''\<rparr>
             (InputObject hello_world) w
     \<and> (\<exists>s w''. LangVoiceTTSTool_call \<lparr>tool_client = c, outputFile = Some ''output.mp3''\<rparr>
                   (InputObject hello_world) w = (s, w'')
            \<and> prefix check_mark s \<and> sent w'' = sent w'
            \<and> (if fs_module w' \<and> writable w' ''output.mp3''
                then files w'' ''output.mp3'' = Some (audioData resp)
                else s = check_mark @ '' Speech generated! Duration: ''
                           @ template_number w' (duration resp) @ ''s. Audio (base64): ''
                           @ take 100 (toBase64 resp) @ ''...''))
     \<and> (\<exists>j w''. handleFunctionCall
                   \<lparr>autogen_client = c, autogen_outputFile = ''output.mp3'', autoSave = True\<rparr>
                   TOOL_TTS (ArgumentsObject hello_world) w = (Inr (JsonText (Text j)), w'')
            \<and> property j ''success'' = Some (JBool True) \<and> sent w'' = sent w'
            \<and> (if fs_module w' \<and> writable w' ''output.mp3''
                then files w'' ''output.mp3'' = Some (audioData resp)
                else property j ''audioBase64Preview''
                       = Some (JStr (take 100 (toBase64 resp) @ ''...''))))
     \<and> (\<exists>j. generateSpeech
                \<lparr>autogen_client = c, autogen_outputFile = ''output.mp3'', autoSave = True\<rparr>
                (Some ''Hello world'') None None None w = ((j, Some (audioData resp)), w')
            \<and> property j ''success'' = Some (JBool True)
            \<and> property j ''audioBase64'' = Some (JStr (toBase64 resp)))
     \<and> base64_decode (toBase64 resp) = audioData resp"
proof -
  have generic: "\<exists>j. LangVoiceToolkit_textToSpeech c (Some ''Hello world'') None None None w = (j, w')
            \<and> property j ''success'' = Some (JBool True)
            \<and> property j ''audioBase64'' = Some (JStr (toBase64 resp))"
    by (simp add: LangVoiceToolkit_textToSpeech_def falsy_defaults direct property_object)
  have dispatch: "LangVoiceToolkit_handleToolCall c TOOL_TTS hello_world w
       = LangVoiceToolkit_textToSpeech c (Some ''Hello world'') None None None w"
    by (simp add: LangVoiceToolkit_handleToolCall_def hello_world_def)
  have openai: "\<exists>j. handleOpenAIToolCall TOOL_TTS hello_world k w = (Inr (Text j), w')
              \<and> LangVoiceOpenAITools_handleCall c TOOL_TTS (Encodes hello_world) w = (Inr j, w')
              \<and> property j ''success'' = Some (JBool True)
              \<and> property j ''audioBase64'' = Some (JStr (toBase64 resp))"
    if built: "LangVoiceClient_constructor w k None None = Inr c" for k
  proof -
    have call: "\<exists>j. handleOpenAIToolCall TOOL_TTS hello_world k' w = (Inr (Text j), w')
              \<and> property j ''success'' = Some (JBool True)
              \<and> property j ''audioBase64'' = Some (JStr (toBase64 resp))
              \<and> j = stringify_value (object
                    [(''success'', Some (JBool True)),
                     (''audioBase64'', Some (JStr (toBase64 resp))),
                     (''duration'', map_option JNum (duration resp)),
                     (''charactersProcessed'', map_option JNum (charactersProcessed resp))])"
      if "LangVoiceClient_constructor w k' None None = Inr c" for k'
      using that
      by (simp add: handleOpenAIToolCall_def hello_world_def falsy_defaults direct
            JSON_stringify_def property_stringify_object)
    from call[OF built] call[OF adapter_constructors(4)[OF built]] show ?thesis
      by (auto simp: LangVoiceOpenAITools_handleCall_def parse_arguments_def JSON_parse_def)
  qed
  have raw: "LangVoiceTTSTool_call \<lparr>tool_client = c, outputFile = Some ''output.mp3''\<rparr>
           (InputString ''Hello world'') w
         = LangVoiceTTSTool_call \<lparr>tool_client = c, outputFile = Some ''output.mp3''\<rparr>
             (InputObject hello_world) w"
    by (simp add: LangVoiceTTSTool_call_def input_params_def hello_world_def)
  have langchain: "\<exists>s w''. LangVoiceTTSTool_call \<lparr>tool_client = c, outputFile = Some ''output.mp3''\<rparr>
                   (InputObject hello_world) w = (s, w'')
            \<and> prefix check_mark s \<and> sent w'' = sent w'
            \<and> (if fs_module w' \<and> writable w' ''output.mp3''
                then files w'' ''output.mp3'' = Some (audioData resp)
                else s = check_mark @ '' Speech generated! Duration: ''
                           @ template_number w' (duration resp) @ ''s. Audio (base64): ''
                           @ take 100 (toBase64 resp) @ ''...'')"
    by (simp add: LangVoiceTTSTool_call_def input_params_def hello_world_def falsy_defaults direct
          falsy_or_string_def writeFileSync_def Let_def)
  have autogen: "\<exists>j w''. handleFunctionCall
                   \<lparr>autogen_client = c, autogen_outputFile = ''output.mp3'', autoSave = True\<rparr>
                   TOOL_TTS (ArgumentsObject hello_world) w = (Inr (JsonText (Text j)), w'')
            \<and> property j ''success'' = Some (JBool True) \<and> sent w'' = sent w'
            \<and> (if fs_module w' \<and> writable w' ''output.mp3''
                then files w'' ''output.mp3'' = Some (audioData resp)
                else property j ''audioBase64Preview''
                       = Some (JStr (take 100 (toBase64 resp) @ ''...'')))"
    by (simp add: handleFunctionCall_def getFunctionMap_def textToSpeechHandler_def
          hello_world_def falsy_defaults direct falsy_or_string_def writeFileSync_def Let_def
          JSON_stringify_def property_stringify_object)
  have auto_direct: "\<exists>j. generateSpeech
                \<lparr>autogen_client = c, autogen_outputFile = ''output.mp3'', autoSave = True\<rparr>
                (Some ''Hello world'') None None None w = ((j, Some (audioData resp)), w')
            \<and> property j ''success'' = Some (JBool True)
            \<and> property j ''audioBase64'' = Some (JStr (toBase64 resp))"
    by (simp add: generateSpeech_def falsy_defaults direct property_object)
  have rt: "base64_decode (toBase64 resp) = audioData resp"
    by (simp add: toBase64_def base64_roundtrip)
  show ?thesis
    using generic dispatch openai raw langchain autogen auto_direct rt by blast
qed

theorem adapters_resolve_defaults_witness:
  "property (fst (LangVoiceToolkit_textToSpeech test_client (Some ''Hello world'') None None None
                   (mock_world 0 (Inr mock_response) True))) ''audioBase64''
     = Some (JStr (base64_encode (replicate 100 0)))
   \<and> property (fst (LangVoiceToolkit_textToSpeech test_client (Some ''Hello world'') None None None
                   (mock_world 0 (Inr mock_response) True))) ''success'' = Some (JBool True)
   \<and> files (snd (LangVoiceTTSTool_call \<lparr>tool_client = test_client, outputFile = Some ''output.mp3''\<rparr>
                   (InputObject hello_world) (mock_world 0 (Inr mock_response) True))) ''output.mp3''
     = Some (replicate 100 0)
   \<and> base64_decode (base64_encode (replicate 100 0)) = replicate 100 0"
proof -
  let ?w = "mock_world 0 (Inr mock_response) True"
  let ?resp = "\<lparr>audioData = replicate 100 0, duration = Some (Fin 2.5), generationTime = None,
           charactersProcessed = Some (Fin 100)\<rparr>"
  note r = adapters_resolve_defaults[OF mock_generate[of True]]
  from r obtain j where j: "LangVoiceToolkit_textToSpeech test_client (Some ''Hello world'') None
      None None ?w = (j, ?w\<lparr>sent := [make_request test_client ''POST'' ''/tts/generate''
           (Some (JObj [(''text'', JStr ''Hello world''), (''voice'', JStr ''heart''),
                        (''language'', JStr ''american_english''), (''speed'', JNum (Fin 1))]))]\<rparr>)"
      "property j ''success'' = Some (JBool True)"
      "property j ''audioBase64'' = Some (JStr (toBase64 ?resp))"
    by blast
  from r obtain s w'' where s: "LangVoiceTTSTool_call
      \<lparr>tool_client = test_client, outputFile = Some ''output.mp3''\<rparr> (InputObject hello_world) ?w
        = (s, w'')"
      "if fs_module (?w\<lparr>sent := [make_request test_client ''POST'' ''/tts/generate''
           (Some (JObj [(''text'', JStr ''Hello world''), (''voice'', JStr ''heart''),
                        (''language'', JStr ''american_english''), (''speed'', JNum (Fin 1))]))]\<rparr>)
            \<and> writable (?w\<lparr>sent := [make_request test_client ''POST'' ''/tts/generate''
           (Some (JObj [(''text'', JStr ''Hello world''), (''voice'', JStr ''heart''),
                        (''language'', JStr ''american_english''), (''speed'', JNum (Fin 1))]))]\<rparr>)
                 ''output.mp3''
       then files w'' ''output.mp3'' = Some (audioData ?resp)
       else s = check_mark @ '' Speech generated! Duration: ''
                  @ template_number (?w\<lparr>sent := [make_request test_client ''POST'' ''/tts/generate''
           (Some (JObj [(''text'', JStr ''Hello world''), (''voice'', JStr ''heart''),
                        (''language'', JStr ''american_english''), (''speed'', JNum (Fin 1))]))]\<rparr>)
                      (duration ?resp) @ ''s. Audio (base64): ''
                  @ take 100 (toBase64 ?resp) @ ''...''"
    by blast
  from r have rt: "base64_decode (toBase64 ?resp) = audioData ?resp" by blast
  from j s rt show ?thesis
    by (simp add: toBase64_def mock_world_simps)
qed

lemma mock_generateMultiVoice:
  "generateMultiVoice test_client (Some ''[heart] Hello! [michael] Hi there!'')
     (Some ''american_english'') (Some (Fin 1)) (mock_world 0 (Inr mock_response) cw)
   = (Inr \<lparr>audioData = replicate 100 0, duration = Some (Fin 2.5), generationTime = None,
           charactersProcessed = Some (Fin 100)\<rparr>,
      (mock_world 0 (Inr mock_response) cw)
        \<lparr>sent := [make_request test_client ''POST'' ''/tts/multi-voice-text''
           (Some (JObj [(''text'', JStr ''[heart] Hello! [michael] Hi there!''),
                        (''language'', JStr ''american_english''), (''speed'', JNum (Fin 1))]))]\<rparr>)"
proof -
  let ?w = "mock_world 0 (Inr mock_response) cw"
  have v: "MultiVoiceRequest_constructor (Some ''[heart] Hello! [michael] Hi there!'')
             (Some ''american_english'') (Some (Fin 1))
           = Inr (MultiVoiceRequest ''[heart] Hello! [michael] Hi there!'' ''american_english'' (Fin 1))"
    by (simp add: MultiVoiceRequest_constructor_def nullish_or_def falsy_or_string_def)
  have s: "server ?w rq = (0, Inr mock_response)" for rq
    by (simp add: mock_world_def)
  have k: "ok mock_response" by (simp add: ok_def mock_response_def)
  have e: "sent ?w = []" by (simp add: mock_world_def)
  have h: "headers mock_response ''X-Audio-Duration'' = Some ''2.5s''"
          "headers mock_response ''X-Characters-Processed'' = Some ''100''"
          "headers mock_response ''X-Generation-Time'' = None"
          "arrayBuffer mock_response = replicate 100 0"
    by (simp_all add: mock_response_def)
  have p: "parseFloatHeader None = None" by (simp add: parseFloatHeader_def)
  show ?thesis
    using requestBinary_ok[OF s _ k, of test_client "''/tts/multi-voice-text''"]
    by (simp add: generateMultiVoice_def v binary_response_def h p e parse_duration_header
          parse_characters_header GenerateResponse_constructor_def)
qed

subsection \<open>Adapters: the speed 0\<close>










subsection \<open>Adapters: errors at the entry points\<close>

text \<open>
  C4. The claim: no exception leaves a tool-call entry point, whatever the input, a
  malformed JSON argument string included. The code: \<open>handleCall\<close> of the OpenAI adapter
  and \<open>handleFunctionCall\<close> of the AutoGen adapter call \<open>JSON.parse\<close> outside every
  \<open>try\<close> block, so on an argument string that is not JSON they reject with the
  \<open>SyntaxError\<close>; \<open>handleOpenAIToolCall\<close> builds its client outside its \<open>try\<close> block, so
  without an API key it rejects with the \<open>AuthenticationError\<close>.
\<close>

theorem malformed_arguments_propagate:
  "LangVoiceOpenAITools_handleCall c TOOL_TTS NotJSON w
     = (Inl (SyntaxError ''Unexpected token in JSON''), w)
   \<and> handleFunctionCall tools TOOL_TTS (ArgumentsString NotJSON) w
     = (Inl (SyntaxError ''Unexpected token in JSON''), w)
   \<and> fst (handleOpenAIToolCall TOOL_TTS a None (mock_world 0 (Inr mock_response) True))
     = Inl (AuthenticationError
         ''API key is required. Pass apiKey in options or set LANGVOICE_API_KEY environment variable.'')"
  by (simp add: LangVoiceOpenAITools_handleCall_def handleFunctionCall_def parse_arguments_def
        handleOpenAIToolCall_def LangVoiceClient_constructor_def getEnvApiKey_def
        falsy_or_string_def mock_world_def)

text \<open>
  Dispatch by name on a name that is none of the four tools: the generic toolkit and the
  OpenAI handler (given a key) return the failure envelope naming the tool, and so does
  the AutoGen handler for a name that \<open>Object.prototype\<close> does not hold.
\<close>

lemma unknown_tool_generic:
  "n \<notin> {TOOL_TTS, TOOL_MULTI_VOICE, TOOL_LIST_VOICES, TOOL_LIST_LANGUAGES} \<Longrightarrow>
   LangVoiceToolkit_handleToolCall c n a w
     = (JObj [(''success'', JBool False), (''error'', JStr (''Unknown tool: '' @ n))], w)"
  by (simp add: LangVoiceToolkit_handleToolCall_def object_def List.map_filter_simps)

lemma unknown_tool_openai:
  "n \<notin> {TOOL_TTS, TOOL_MULTI_VOICE, TOOL_LIST_VOICES, TOOL_LIST_LANGUAGES} \<Longrightarrow>
   LangVoiceClient_constructor w k None None = Inr c \<Longrightarrow>
   handleOpenAIToolCall n a k w
     = (Inr (Text (JObj [(''success'', JBool False), (''error'', JStr (''Unknown tool: '' @ n))])), w)"
  by (simp add: handleOpenAIToolCall_def object_def List.map_filter_simps JSON_stringify_def)

lemma unknown_function_autogen:
  "n \<notin> {TOOL_TTS, TOOL_MULTI_VOICE, TOOL_LIST_VOICES, TOOL_LIST_LANGUAGES} \<Longrightarrow>
   n \<notin> set Object_prototype \<Longrightarrow>
   handleFunctionCall tools n (ArgumentsObject a) w
     = (Inr (JsonText (Text (JObj [(''success'', JBool False),
                                   (''error'', JStr (''Unknown function: '' @ n))]))), w)"
  by (simp add: handleFunctionCall_def getFunctionMap_def object_def List.map_filter_simps
        JSON_stringify_def)

text \<open>
  C8. The claim: for every string that is not one of the four tool names, dispatch by
  name returns a failure result naming it and does not throw. The code of the AutoGen
  adapter looks the name up with \<open>functionMap[call.name]\<close>, which also finds the
  properties inherited from \<open>Object.prototype\<close>: for \<open>toString\<close> the call resolves to the
  string \<open>[object Undefined]\<close>, which is no failure envelope, and for \<open>__proto__\<close> and
  \<open>valueOf\<close> it rejects with a \<open>TypeError\<close>; an unknown name with a malformed argument
  string rejects with the \<open>SyntaxError\<close> of \<open>JSON.parse\<close>.
\<close>

theorem inherited_name_dispatch:
  "''toString'' \<notin> {TOOL_TTS, TOOL_MULTI_VOICE, TOOL_LIST_VOICES, TOOL_LIST_LANGUAGES}
   \<and> handleFunctionCall tools ''toString'' (ArgumentsObject a) w
       = (Inr (PlainString ''[object Undefined]''), w)
   \<and> handleFunctionCall tools ''__proto__'' (ArgumentsObject a) w
       = (Inl (TypeError ''handler is not a function''), w)
   \<and> handleFunctionCall tools ''valueOf'' (ArgumentsObject a) w
       = (Inl (TypeError ''Cannot convert undefined or null to object''), w)
   \<and> handleFunctionCall tools ''no_such_tool'' (ArgumentsString NotJSON) w
       = (Inl (SyntaxError ''Unexpected token in JSON''), w)"
  by (simp add: handleFunctionCall_def getFunctionMap_def Object_prototype_def call_inherited_def
        parse_arguments_def TOOL_TTS_def TOOL_MULTI_VOICE_def TOOL_LIST_VOICES_def
        TOOL_LIST_LANGUAGES_def)

subsection \<open>Adapters: persistence failures\<close>

text \<open>
  When the file cannot be written, the text-to-speech handler of the AutoGen adapter
  still returns success with the duration, the character count and a base64 preview, and
  the three explicit save calls return \<open>false\<close>.
\<close>

lemma text_to_speech_save_failure:
  assumes "generate (autogen_client tools) (arg_text a)
             (Some (falsy_or_string (arg_voice a) ''heart''))
             (Some (falsy_or_string (arg_language a) ''american_english''))
             (Some (falsy_or_number (arg_speed a) (Fin 1))) w = (Inr resp, w')"
      and "autoSave tools"
      and "writeFileSync (falsy_or_string (arg_output_file a) (autogen_outputFile tools))
             (audioData resp) w' = None"
  shows "textToSpeechHandler tools a w
           = (JSON_stringify (object
                [(''success'', Some (JBool True)),
                 (''message'',
                    Some (JStr ''Speech generated (file save not available in this environment)'')),
                 (''duration'', map_option JNum (duration resp)),
                 (''charactersProcessed'', map_option JNum (charactersProcessed resp)),
                 (''audioBase64Preview'', Some (JStr (take 100 (toBase64 resp) @ ''...'')))]), w')"
  using assms by (simp add: textToSpeechHandler_def Let_def)

lemma save_call_failure:
  assumes "\<And>p d. writeFileSync p d w = None"
  shows "LangVoiceToolkit_saveAudio result path w = (False, w)"
    and "LangVoiceOpenAITools_saveAudioFromResult result path w = (False, w)"
    and "LangVoiceAutoGenTools_saveAudio tools result opt_path w = (False, w)"
  using assms
  by (simp_all add: LangVoiceToolkit_saveAudio_def LangVoiceOpenAITools_saveAudioFromResult_def
        LangVoiceAutoGenTools_saveAudio_def split: option.splits json.splits)

text \<open>
  C9. The claim: an adapter whose file write fails returns a success result that carries
  the duration and a base64 audio preview. The code of the two multi-voice paths, on the
  mocked server with a file system that refuses the write: the AutoGen handler returns
  \<open>{success: true, message: 'Multi-voice speech generated', duration: 2.5}\<close> and the
  LangChain tool returns a sentence ending in \<open>Audio available in base64 format.\<close>;
  neither carries any audio, although the audio was generated.
\<close>

theorem multi_voice_save_failure_drops_audio:
  "fst (multiVoiceHandler
          \<lparr>autogen_client = test_client, autogen_outputFile = ''output.mp3'', autoSave = True\<rparr>
          \<lparr>arg_text = Some ''[heart] Hello! [michael] Hi there!'', arg_voice = None,
           arg_language = None, arg_speed = None, arg_output_file = None\<rparr>
          (mock_world 0 (Inr mock_response) False))
     = Text (JObj [(''success'', JBool True), (''message'', JStr ''Multi-voice speech generated''),
                   (''duration'', JNum (Fin 2.5))])
   \<and> fst (LangVoiceMultiVoiceTool_call \<lparr>tool_client = test_client, outputFile = Some ''output.mp3''\<rparr>
            (InputString ''[heart] Hello! [michael] Hi there!'')
            (mock_world 0 (Inr mock_response) False))
     = check_mark @ '' Multi-voice speech generated! Duration: 2.5s. Audio available in base64 format.''"
  by (simp add: multiVoiceHandler_def LangVoiceMultiVoiceTool_call_def input_params_def
        falsy_defaults mock_generateMultiVoice writeFileSync_def mock_world_simps
        JSON_stringify_def object_def List.map_filter_simps template_number_def
        falsy_or_string_def)

end
